theory Spec2Isabelle
  imports Complex_Main "HOL-Library.AList"
begin

section \<open>Data model of the Winter Pacman server (src/server.py)\<close>

text \<open>
  The server is one Python object, \<^verbatim>\<open>WebSocketPacmanServer\<close>, whose fields are mutated by
  coroutines that only suspend at network sends. The model is a record of those fields,
  passed through every operation and returned updated. What the code hands to its
  collaborators (the logger, the rating database, the websockets) is appended to the field
  \<open>effects\<close>, in the order of the calls.
\<close>

subsection \<open>Decoded messages\<close>

text \<open>
  \<^verbatim>\<open>json.loads\<close> gives a Python value. Numbers are integers here, as the annotations of
  the source have them (\<^verbatim>\<open>x: int, y: int\<close>); the keys of an object are distinct, as they
  are in a Python dict.
\<close>

datatype json =
    JNull
  | JBool bool
  | JNum int
  | JStr string
  | JArr "json list"
  | JObj "(string \<times> json) list"

text \<open>
  The exceptions that reach \<^verbatim>\<open>handle_client\<close>. The last four are raised by
  \<^verbatim>\<open>json.loads\<close>: \<^verbatim>\<open>JSONDecodeError\<close> for a text that is not JSON, \<^verbatim>\<open>RecursionError\<close>
  for a text nested too deep, \<^verbatim>\<open>ValueError\<close> for an integer literal over the digit limit
  of the interpreter, \<^verbatim>\<open>UnicodeDecodeError\<close> for a binary frame that is not text.
\<close>

datatype error = KeyError | TypeError
  | JSONDecodeError | RecursionError | ValueError | UnicodeDecodeError

text \<open>\<^verbatim>\<open>d[k]\<close>: only a dict can be indexed by a string; a missing key raises.\<close>

fun getitem :: "json \<Rightarrow> string \<Rightarrow> error + json" where
  "getitem (JObj kvs) k = (case map_of kvs k of None \<Rightarrow> Inl KeyError | Some v \<Rightarrow> Inr v)"
| "getitem _ k = Inl TypeError"

text \<open>A value used in arithmetic or compared with a number: \<^verbatim>\<open>bool\<close> is an \<^verbatim>\<open>int\<close> in
  Python, every other non-number raises \<^verbatim>\<open>TypeError\<close>.\<close>

fun as_num :: "json \<Rightarrow> error + int" where
  "as_num (JNum n) = Inr n"
| "as_num (JBool b) = Inr (if b then 1 else 0)"
| "as_num _ = Inl TypeError"


text \<open>Python's truth value of a decoded value.\<close>

fun truthy :: "json \<Rightarrow> bool" where
  "truthy JNull = False"
| "truthy (JBool b) = b"
| "truthy (JNum n) = (n \<noteq> 0)"
| "truthy (JStr s) = (s \<noteq> [])"
| "truthy (JArr xs) = (xs \<noteq> [])"
| "truthy (JObj kvs) = (kvs \<noteq> [])"

subsection \<open>Players, arenas, server state\<close>

type_synonym pid = string
type_synonym color = "nat list"
type_synonym websocket = nat

datatype role = Pacman | Ghost

text \<open>
  The per-player dict of \<^verbatim>\<open>handle_client\<close>. Every key is written when the dict is created
  and no key is ever deleted, so each key is a field that is always present. The keys
  \<^verbatim>\<open>total_score\<close>, \<^verbatim>\<open>games_played\<close> and \<^verbatim>\<open>wins\<close> are written once and never read; they are
  left out. \<^verbatim>\<open>voice_chat\<close> and \<^verbatim>\<open>muted\<close> are only ever tested for truth, so their truth
  value is what is stored.
\<close>

record player =
  pos_x :: int
  pos_y :: int
  role :: role
  color :: color
  score :: int
  power_mode :: bool
  power_timer :: int
  lives :: int
  websocket :: websocket
  name :: json
  voice_chat :: bool
  muted :: bool

datatype snow_type = Regular | Crystal | Star

record dot =
  dot_x :: int
  dot_y :: int
  dot_size :: int
  dot_type :: snow_type
  dot_eaten :: bool

record icicle =
  ice_x :: int
  ice_y :: int
  ice_eaten :: bool

text \<open>
  A wall. Its numbers are integers in four arenas and floats in the second one, whose walls
  are placed with \<^verbatim>\<open>math.cos\<close> and \<^verbatim>\<open>math.sin\<close>: they are rationals here, which every
  integer and every finite float is.
\<close>

record wall =
  wall_x :: rat
  wall_y :: rat
  width :: rat
  height :: rat

text \<open>
  The part of one entry of \<^verbatim>\<open>self.maps\<close> that is generated at start-up (randomly placed
  collectibles, walls with computed coordinates) and the part that the game mutates. The
  fields \<^verbatim>\<open>self.dots\<close>, \<^verbatim>\<open>self.power_pellets\<close> and \<^verbatim>\<open>self.walls\<close> of the server are
  references to the lists of the active entry, never copies: they are read here through
  \<open>current_map\<close>, so that a write to a collectible is a write to the arena that owns it.
\<close>

record map_data =
  walls :: "wall list"
  dots :: "dot list"
  power_pellets :: "icicle list"

datatype effect =
    LogJsonError pid
  | LogClientError pid error
  | UpdateRating json int bool
  | SendGameState pid
  | SendLeaderboard pid
  | SendPlayerStats pid
  | SendVoiceAudio pid pid json json json

text \<open>
  \<open>players\<close> is the dict \<^verbatim>\<open>self.players\<close> in insertion order. \<open>maps\<close> is \<^verbatim>\<open>self.maps\<close>,
  addressed by index (0 to 4). \<open>last_respawn_time\<close> and every clock reading are in
  microseconds, the resolution of \<^verbatim>\<open>datetime\<close>. \<open>rnd\<close> is the stream of numbers the
  module \<^verbatim>\<open>random\<close> will draw next.
\<close>

record server =
  connected_clients :: "websocket set"
  players :: "(pid \<times> player) list"
  pacman_player_id :: "pid option"
  player_counter :: nat
  used_ghost_colors :: "color set"
  current_map :: nat
  maps :: "nat \<Rightarrow> map_data"
  last_respawn_time :: int
  rnd :: "nat \<Rightarrow> nat"
  effects :: "effect list"

definition ghost_colors_available :: "color list" where
  "ghost_colors_available =
     [[173, 216, 230], [255, 182, 193], [152, 251, 152], [221, 160, 221],
      [240, 248, 255], [176, 224, 230], [255, 250, 205]]"

definition pacman_color :: color where
  "pacman_color = [255, 255, 0]"

definition dot_respawn_interval :: int where
  "dot_respawn_interval = 30"

definition num_maps :: nat where
  "num_maps = 5"

text \<open>The spawn points written in \<^verbatim>\<open>generate_winter_maps\<close>, by index of the arena.\<close>

definition pacman_spawn :: "nat \<Rightarrow> int \<times> int" where
  "pacman_spawn m = [(400, 500), (100, 100), (100, 350), (150, 150), (450, 450)] ! m"

definition ghost_spawns :: "nat \<Rightarrow> (int \<times> int) list" where
  "ghost_spawns m =
     [[(400, 300), (300, 300), (500, 300), (400, 200)],
      [(800, 600), (800, 100), (100, 600), (450, 350)],
      [(800, 350), (450, 100), (450, 600), (450, 350)],
      [(750, 550), (750, 150), (150, 550), (450, 350)],
      [(100, 100), (800, 100), (100, 600), (800, 600)]] ! m"

text \<open>\<^verbatim>\<open>__init__\<close>, given the generated arenas, the random stream and the clock reading.\<close>

definition server_init :: "(nat \<Rightarrow> map_data) \<Rightarrow> (nat \<Rightarrow> nat) \<Rightarrow> int \<Rightarrow> server" where
  "server_init ms r now =
     \<lparr>connected_clients = {}, players = [], pacman_player_id = None, player_counter = 0,
      used_ghost_colors = {}, current_map = 0, maps = ms, last_respawn_time = now,
      rnd = r, effects = []\<rparr>"

subsection \<open>Helpers for the Python built-ins\<close>

text \<open>\<^verbatim>\<open>str(n)\<close> for a non-negative integer.\<close>

definition digit :: "nat \<Rightarrow> char" where
  "digit d = ''0123456789'' ! d"

fun str :: "nat \<Rightarrow> string" where
  "str n = (if n < 10 then [digit n] else str (n div 10) @ [digit (n mod 10)])"

declare str.simps [simp del]

text \<open>\<^verbatim>\<open>random.choice(xs)\<close> on a non-empty list: the next number of the stream picks the
  index. \<open>choice\<close> works on the stream, \<open>random_choice\<close> on the server that holds it.\<close>

definition choice :: "'a list \<Rightarrow> (nat \<Rightarrow> nat) \<Rightarrow> 'a \<times> (nat \<Rightarrow> nat)" where
  "choice xs r = (xs ! (r 0 mod length xs), \<lambda>n. r (Suc n))"

definition random_choice :: "'a list \<Rightarrow> server \<Rightarrow> 'a \<times> server" where
  "random_choice xs s = (let (v, r) = choice xs (rnd s) in (v, s\<lparr>rnd := r\<rparr>))"

text \<open>\<^verbatim>\<open>random.random()\<close>: a float \<open>k / 2^53\<close> with \<open>0 \<le> k < 2^53\<close>, here as a rational.\<close>

definition random_random :: "(nat \<Rightarrow> nat) \<Rightarrow> rat \<times> (nat \<Rightarrow> nat)" where
  "random_random r = (of_nat (r 0 mod 2 ^ 53) / 2 ^ 53, \<lambda>n. r (Suc n))"

definition the_player :: "server \<Rightarrow> pid \<Rightarrow> player" where
  "the_player s k = the (map_of (players s) k)"

definition player_ids :: "server \<Rightarrow> pid list" where
  "player_ids s = map fst (players s)"

text \<open>\<^verbatim>\<open>self.players[k][field] = v\<close> for a key that is in the dict.\<close>

definition upd :: "pid \<Rightarrow> (player \<Rightarrow> player) \<Rightarrow> server \<Rightarrow> server" where
  "upd k f s = s\<lparr>players := AList.map_entry k f (players s)\<rparr>"

definition emit :: "effect \<Rightarrow> server \<Rightarrow> server" where
  "emit e s = s\<lparr>effects := effects s @ [e]\<rparr>"

section \<open>Walls and the position clamp\<close>

text \<open>
  The test inside the loop of \<^verbatim>\<open>check_wall_collision\<close>, for one wall. The coordinates
  of the player are integers, as the annotations of \<^verbatim>\<open>check_wall_collision\<close> and
  \<^verbatim>\<open>get_valid_position\<close> declare them; Python compares an integer with a float by
  value. The sum of a wall's corner and its extent is the exact one.
\<close>

definition hits_wall :: "int \<Rightarrow> int \<Rightarrow> int \<Rightarrow> wall \<Rightarrow> bool" where
  "hits_wall x y player_size w =
     (of_int (x + player_size div 2) > wall_x w \<and>
      of_int (x - player_size div 2) < wall_x w + width w \<and>
      of_int (y + player_size div 2) > wall_y w \<and>
      of_int (y - player_size div 2) < wall_y w + height w)"

text \<open>\<^verbatim>\<open>check_wall_collision\<close>: the loop returns at the first wall that is hit.\<close>

definition check_wall_collision :: "server \<Rightarrow> int \<Rightarrow> int \<Rightarrow> int \<Rightarrow> bool" where
  "check_wall_collision s x y player_size =
     list_ex (hits_wall x y player_size) (walls (maps s (current_map s)))"

definition get_valid_position ::
  "server \<Rightarrow> int \<Rightarrow> int \<Rightarrow> int \<Rightarrow> int \<Rightarrow> int \<Rightarrow> int \<times> int" where
  "get_valid_position s old_x old_y new_x new_y player_size =
     (if \<not> check_wall_collision s new_x new_y player_size then (new_x, new_y)
      else if \<not> check_wall_collision s new_x old_y player_size then (new_x, old_y)
      else if \<not> check_wall_collision s old_x new_y player_size then (old_x, new_y)
      else (old_x, old_y))"

section \<open>Colors and roles\<close>

definition get_ghost_color :: "server \<Rightarrow> color \<times> server" where
  "get_ghost_color s =
     (let available_colors = filter (\<lambda>c. c \<notin> used_ghost_colors s) ghost_colors_available
      in if available_colors \<noteq> []
         then (hd available_colors,
               s\<lparr>used_ghost_colors := insert (hd available_colors) (used_ghost_colors s)\<rparr>)
         else random_choice ghost_colors_available s)"

text \<open>
  The body of the loop of \<^verbatim>\<open>assign_roles\<close> for one player. The three guards
  \<^verbatim>\<open>'lives' not in\<close>, \<^verbatim>\<open>'score' not in\<close> and \<^verbatim>\<open>'color' not in\<close> test keys that
  \<^verbatim>\<open>handle_client\<close> writes into every player dict, so their branches never run.
\<close>

definition assign_role :: "pid option \<Rightarrow> pid \<times> player \<Rightarrow> pid \<times> player" where
  "assign_role hunter kp =
     (if Some (fst kp) = hunter
      then (fst kp, (snd kp)\<lparr>role := Pacman, color := pacman_color\<rparr>)
      else (fst kp, (snd kp)\<lparr>role := Ghost\<rparr>))"

definition assign_roles :: "server \<Rightarrow> server" where
  "assign_roles s =
     (if players s = [] then s
      else
        let s1 = (if (case pacman_player_id s of None \<Rightarrow> True
                                                | Some h \<Rightarrow> h \<notin> set (player_ids s))
                  then (let (k, s') = random_choice (player_ids s) s
                        in s'\<lparr>pacman_player_id := Some k\<rparr>)
                  else s)
        in s1\<lparr>players := map (assign_role (pacman_player_id s1)) (players s1)\<rparr>)"

section \<open>Connecting and disconnecting\<close>

definition send_game_state :: "pid \<Rightarrow> server \<Rightarrow> server" where
  "send_game_state player_id s =
     (if player_id \<in> set (player_ids s) then emit (SendGameState player_id) s else s)"

text \<open>\<^verbatim>\<open>handle_client\<close> up to the message loop: the new player's id is
  \<open>str (player_counter s + 1)\<close>.\<close>

definition handle_client_connect :: "websocket \<Rightarrow> server \<Rightarrow> server" where
  "handle_client_connect ws s =
     (let s1 = s\<lparr>player_counter := player_counter s + 1\<rparr>;
          player_id = str (player_counter s1);
          s2 = s1\<lparr>connected_clients := insert ws (connected_clients s1)\<rparr>;
          (c, s3) = get_ghost_color s2;
          s4 = s3\<lparr>players := AList.update player_id
                  \<lparr>pos_x = fst (pacman_spawn (current_map s3)),
                   pos_y = snd (pacman_spawn (current_map s3)),
                   role = Ghost, color = c, score = 0, power_mode = False, power_timer = 0,
                   lives = 3, websocket = ws, name = JStr (''Player'' @ player_id),
                   voice_chat = True, muted = False\<rparr> (players s3)\<rparr>
      in send_game_state player_id (assign_roles s4))"

definition cleanup_player :: "pid \<Rightarrow> server \<Rightarrow> server" where
  "cleanup_player player_id s =
     (case map_of (players s) player_id of
        None \<Rightarrow> s
      | Some p \<Rightarrow>
          let s1 = (if Some player_id = pacman_player_id s
                    then emit (UpdateRating (name p) (score p) True) s else s);
              s2 = (if role p = Ghost
                    then s1\<lparr>used_ghost_colors := used_ghost_colors s1 - {color p}\<rparr> else s1);
              s3 = (if Some player_id = pacman_player_id s2
                    then s2\<lparr>pacman_player_id := None\<rparr> else s2);
              s4 = s3\<lparr>connected_clients := connected_clients s3 - {websocket p}\<rparr>;
              s5 = s4\<lparr>players := AList.delete player_id (players s4)\<rparr>
          in assign_roles s5)"

section \<open>Pickups\<close>

text \<open>Writing to \<^verbatim>\<open>self.dots\<close> and \<^verbatim>\<open>self.power_pellets\<close>: the lists of the active arena.\<close>

definition active_dots :: "server \<Rightarrow> dot list" where
  "active_dots s = dots (maps s (current_map s))"

definition active_pellets :: "server \<Rightarrow> icicle list" where
  "active_pellets s = power_pellets (maps s (current_map s))"

definition set_active_dots :: "dot list \<Rightarrow> server \<Rightarrow> server" where
  "set_active_dots ds s =
     s\<lparr>maps := (maps s)(current_map s := (maps s (current_map s))\<lparr>dots := ds\<rparr>)\<rparr>"

definition set_active_pellets :: "icicle list \<Rightarrow> server \<Rightarrow> server" where
  "set_active_pellets ps s =
     s\<lparr>maps := (maps s)(current_map s := (maps s (current_map s))\<lparr>power_pellets := ps\<rparr>)\<rparr>"

definition dot_hit :: "int \<Rightarrow> int \<Rightarrow> dot \<Rightarrow> bool" where
  "dot_hit x y d =
     (\<not> dot_eaten d \<and>
      x - 15 < dot_x d + dot_size d \<and> x + 15 > dot_x d - dot_size d \<and>
      y - 15 < dot_y d + dot_size d \<and> y + 15 > dot_y d - dot_size d)"

definition dot_points :: "dot \<Rightarrow> int" where
  "dot_points d = (if dot_type d = Crystal then 15 else if dot_type d = Star then 20 else 10)"

text \<open>The loop of \<^verbatim>\<open>check_snowflake_collision\<close>: the collectibles after it, and the points
  it added to the score.\<close>

fun eat_snowflakes :: "int \<Rightarrow> int \<Rightarrow> dot list \<Rightarrow> dot list \<times> int" where
  "eat_snowflakes x y [] = ([], 0)"
| "eat_snowflakes x y (d # ds) =
     (let (ds', pts) = eat_snowflakes x y ds
      in if dot_hit x y d then (d\<lparr>dot_eaten := True\<rparr> # ds', dot_points d + pts)
         else (d # ds', pts))"

definition check_snowflake_collision :: "pid \<Rightarrow> int \<Rightarrow> int \<Rightarrow> server \<Rightarrow> server" where
  "check_snowflake_collision player_id x y s =
     (let (ds', pts) = eat_snowflakes x y (active_dots s)
      in upd player_id (\<lambda>p. p\<lparr>score := score p + pts\<rparr>) (set_active_dots ds' s))"

definition icicle_hit :: "int \<Rightarrow> int \<Rightarrow> icicle \<Rightarrow> bool" where
  "icicle_hit x y i =
     (\<not> ice_eaten i \<and>
      x - 15 < ice_x i + 5 \<and> x + 15 > ice_x i - 5 \<and>
      y - 15 < ice_y i + 5 \<and> y + 15 > ice_y i - 5)"

definition check_icicle_collision :: "pid \<Rightarrow> int \<Rightarrow> int \<Rightarrow> server \<Rightarrow> server" where
  "check_icicle_collision player_id x y s =
     (let ps' = map (\<lambda>i. if icicle_hit x y i then i\<lparr>ice_eaten := True\<rparr> else i) (active_pellets s);
          s1 = set_active_pellets ps' s
      in if list_ex (icicle_hit x y) (active_pellets s)
         then upd player_id (\<lambda>p. p\<lparr>power_mode := True, power_timer := 300\<rparr>) s1
         else s1)"

section \<open>Hunter against evaders\<close>

definition overlaps :: "int \<Rightarrow> int \<Rightarrow> player \<Rightarrow> bool" where
  "overlaps x y g =
     (x - 15 < pos_x g + 15 \<and> x + 15 > pos_x g - 15 \<and>
      y - 15 < pos_y g + 15 \<and> y + 15 > pos_y g - 15)"

definition move_to :: "pid \<Rightarrow> int \<times> int \<Rightarrow> server \<Rightarrow> server" where
  "move_to k pos s = upd k (\<lambda>p. p\<lparr>pos_x := fst pos, pos_y := snd pos\<rparr>) s"

text \<open>Lines 809 to 828: the hunter has no life left.\<close>

definition pacman_dies :: "pid \<Rightarrow> server \<Rightarrow> server" where
  "pacman_dies player_id s =
     (let old_pacman = player_id;
          s1 = s\<lparr>pacman_player_id := None\<rparr>;
          s2 = emit (UpdateRating (name (the_player s1 old_pacman))
                       (score (the_player s1 old_pacman)) False) s1;
          s3 = assign_roles s2
      in if old_pacman \<in> set (player_ids s3)
         then (let (spawn_pos, s4) = random_choice (ghost_spawns (current_map s3)) s3;
                   s5 = move_to old_pacman spawn_pos s4;
                   (c, s6) = get_ghost_color s5
               in upd old_pacman (\<lambda>p. p\<lparr>color := c\<rparr>) s6)
         else s3)"

text \<open>
  One iteration of the loop of \<^verbatim>\<open>check_ghost_collision\<close>. \<open>pm\<close> is the local
  \<^verbatim>\<open>power_mode\<close>, read once before the loop; \<open>x\<close> and \<open>y\<close> are the arguments, so the
  hunter's box does not move during the loop. The entry of \<open>ghost_id\<close> is read from the
  state as it is when the iteration starts.
\<close>

definition ghost_step :: "pid \<Rightarrow> int \<Rightarrow> int \<Rightarrow> bool \<Rightarrow> pid \<Rightarrow> server \<Rightarrow> server" where
  "ghost_step player_id x y pm ghost_id s =
     (let ghost_data = the_player s ghost_id
      in if ghost_id \<noteq> player_id \<and> role ghost_data = Ghost \<and> overlaps x y ghost_data
         then (if pm
               then (let (spawn_pos, s1) = random_choice (ghost_spawns (current_map s)) s;
                         s2 = move_to ghost_id spawn_pos s1
                     in upd player_id (\<lambda>p. p\<lparr>score := score p + 200\<rparr>) s2)
               else (let s1 = upd player_id (\<lambda>p. p\<lparr>lives := lives p - 1\<rparr>) s
                     in if lives (the_player s1 player_id) \<le> 0
                        then pacman_dies player_id s1
                        else move_to player_id (pacman_spawn (current_map s1)) s1))
         else s)"

text \<open>The keys of \<^verbatim>\<open>self.players\<close> do not change during the loop, only the entries do.\<close>

definition check_ghost_collision :: "pid \<Rightarrow> int \<Rightarrow> int \<Rightarrow> server \<Rightarrow> server" where
  "check_ghost_collision player_id x y s =
     fold (ghost_step player_id x y (power_mode (the_player s player_id))) (player_ids s) s"

section \<open>Respawn and broadcast\<close>

text \<open>
  The two loops of \<^verbatim>\<open>check_snowflake_respawn\<close>: a number is drawn only for a consumed
  item (\<^verbatim>\<open>and\<close> does not evaluate its right side otherwise). Each returns the items, the
  number of items it cleared and the rest of the stream. The thresholds 0.7 and 0.5 are
  the rationals 7/10 and 1/2: no \<open>k / 2^53\<close> lies between 7/10 and the float 0.7.
\<close>

fun respawn_dots :: "dot list \<Rightarrow> (nat \<Rightarrow> nat) \<Rightarrow> dot list \<times> nat \<times> (nat \<Rightarrow> nat)" where
  "respawn_dots [] r = ([], 0, r)"
| "respawn_dots (d # ds) r =
     (if dot_eaten d
      then (let (u, r1) = random_random r;
                (ds', n, r2) = respawn_dots ds r1
            in if u > 7 / 10 then (d\<lparr>dot_eaten := False\<rparr> # ds', n + 1, r2)
               else (d # ds', n, r2))
      else (let (ds', n, r2) = respawn_dots ds r in (d # ds', n, r2)))"

fun respawn_icicles ::
  "icicle list \<Rightarrow> (nat \<Rightarrow> nat) \<Rightarrow> icicle list \<times> nat \<times> (nat \<Rightarrow> nat)" where
  "respawn_icicles [] r = ([], 0, r)"
| "respawn_icicles (i # is) r =
     (if ice_eaten i
      then (let (u, r1) = random_random r;
                (is', n, r2) = respawn_icicles is r1
            in if u > 1 / 2 then (i\<lparr>ice_eaten := False\<rparr> # is', n + 1, r2)
               else (i # is', n, r2))
      else (let (is', n, r2) = respawn_icicles is r in (i # is', n, r2)))"

text \<open>\<open>now\<close> is the reading of \<^verbatim>\<open>datetime.now()\<close>; the interval is in seconds.\<close>

definition check_snowflake_respawn :: "int \<Rightarrow> server \<Rightarrow> server" where
  "check_snowflake_respawn now s =
     (if now - last_respawn_time s \<ge> dot_respawn_interval * 1000000
      then (let (ds, n1, r1) = respawn_dots (active_dots s) (rnd s);
                (ps, n2, r2) = respawn_icicles (active_pellets s) r1;
                s1 = (set_active_pellets ps (set_active_dots ds s))\<lparr>rnd := r2\<rparr>
            in if n1 + n2 > 0 then s1\<lparr>last_respawn_time := now\<rparr> else s1)
      else s)"

definition broadcast_game_state :: "int \<Rightarrow> server \<Rightarrow> server" where
  "broadcast_game_state now s =
     (let s1 = check_snowflake_respawn now s
      in s1\<lparr>effects := effects s1 @ map SendGameState (player_ids s1)\<rparr>)"

definition voice_recipients :: "pid \<Rightarrow> server \<Rightarrow> pid list" where
  "voice_recipients sender_id s =
     map fst (filter (\<lambda>(player_id, player_data).
                player_id \<noteq> sender_id \<and> voice_chat player_data \<and> \<not> muted player_data \<and>
                websocket player_data \<in> connected_clients s) (players s))"

definition broadcast_voice_audio :: "pid \<Rightarrow> json \<Rightarrow> json \<Rightarrow> server \<Rightarrow> server" where
  "broadcast_voice_audio sender_id audio_data sequence s =
     s\<lparr>effects := effects s @
          map (\<lambda>k. SendVoiceAudio k sender_id (name (the_player s sender_id)) audio_data sequence)
              (voice_recipients sender_id s)\<rparr>"

section \<open>Dispatch of one message\<close>

text \<open>
  Each branch of \<^verbatim>\<open>handle_message\<close> returns the exception it raised, if any, with the
  state as the exception leaves it: Python does not undo the writes made before a raise.
  A branch reads \<^verbatim>\<open>self.players[player_id]\<close> where the source does, which raises
  \<^verbatim>\<open>KeyError\<close> for an id that is not registered.
\<close>

text \<open>Lines 586 to 595: read the stored position, clamp the requested one, store it.\<close>

definition store_position :: "pid \<Rightarrow> int \<Rightarrow> int \<Rightarrow> server \<Rightarrow> (int \<times> int) \<times> server" where
  "store_position player_id new_x new_y s =
     (let old_x = pos_x (the_player s player_id);
          old_y = pos_y (the_player s player_id);
          valid = get_valid_position s old_x old_y new_x new_y 30
      in (valid, move_to player_id valid s))"

text \<open>Lines 603 to 607: the power timer loses one unit per position message.\<close>

definition power_tick :: "pid \<Rightarrow> server \<Rightarrow> server" where
  "power_tick player_id s =
     (if power_mode (the_player s player_id)
      then (let s1 = upd player_id (\<lambda>p. p\<lparr>power_timer := power_timer p - 1\<rparr>) s
            in if power_timer (the_player s1 player_id) \<le> 0
               then upd player_id (\<lambda>p. p\<lparr>power_mode := False\<rparr>) s1 else s1)
      else s)"

text \<open>Lines 586 to 607: what the position branch does with two numbers.\<close>

definition position_update :: "pid \<Rightarrow> int \<Rightarrow> int \<Rightarrow> server \<Rightarrow> server" where
  "position_update player_id new_x new_y s =
     (let ((valid_x, valid_y), s2) = store_position player_id new_x new_y s;
          s3 = (if role (the_player s2 player_id) = Pacman
                then check_ghost_collision player_id valid_x valid_y
                       (check_icicle_collision player_id valid_x valid_y
                          (check_snowflake_collision player_id valid_x valid_y s2))
                else s2)
      in power_tick player_id s3)"

text \<open>
  The position branch. The name is written before the coordinates are used, and a
  coordinate that is not a number raises in \<^verbatim>\<open>check_wall_collision\<close>, after that write.
\<close>

definition on_position :: "pid \<Rightarrow> json \<Rightarrow> server \<Rightarrow> error option \<times> server" where
  "on_position player_id data s =
     (case getitem data ''position'' of Inl e \<Rightarrow> (Some e, s) | Inr pos \<Rightarrow>
      (case getitem pos ''x'' of Inl e \<Rightarrow> (Some e, s) | Inr new_x \<Rightarrow>
       (case getitem pos ''y'' of Inl e \<Rightarrow> (Some e, s) | Inr new_y \<Rightarrow>
        (if player_id \<notin> set (player_ids s) then (Some KeyError, s)
         else
           let s1 = (case getitem pos ''name'' of
                       Inr n \<Rightarrow> upd player_id (\<lambda>p. p\<lparr>name := n\<rparr>) s
                     | Inl _ \<Rightarrow> s)
           in (case as_num new_x of Inl e \<Rightarrow> (Some e, s1) | Inr nx \<Rightarrow>
               (case as_num new_y of Inl e \<Rightarrow> (Some e, s1) | Inr ny \<Rightarrow>
                  (None, position_update player_id nx ny s1)))))))"

definition on_voice_chat :: "pid \<Rightarrow> json \<Rightarrow> server \<Rightarrow> error option \<times> server" where
  "on_voice_chat player_id data s =
     (case getitem data ''enabled'' of Inl e \<Rightarrow> (Some e, s) | Inr v \<Rightarrow>
        if player_id \<notin> set (player_ids s) then (Some KeyError, s)
        else (None, upd player_id (\<lambda>p. p\<lparr>voice_chat := truthy v\<rparr>) s))"

definition on_voice_audio :: "pid \<Rightarrow> json \<Rightarrow> server \<Rightarrow> error option \<times> server" where
  "on_voice_audio player_id data s =
     (if player_id \<notin> set (player_ids s) then (Some KeyError, s)
      else if voice_chat (the_player s player_id) \<and> \<not> muted (the_player s player_id)
      then (case getitem data ''audio_data'' of Inl e \<Rightarrow> (Some e, s) | Inr audio_data \<Rightarrow>
            (case getitem data ''sequence'' of Inl e \<Rightarrow> (Some e, s) | Inr sequence \<Rightarrow>
               (None, broadcast_voice_audio player_id audio_data sequence s)))
      else (None, s))"

text \<open>\<^verbatim>\<open>target_player in self.players\<close>: the keys are strings; a list or a dict cannot be
  hashed and raises; any other value is not a key.\<close>

definition on_mute_player :: "json \<Rightarrow> server \<Rightarrow> error option \<times> server" where
  "on_mute_player data s =
     (case getitem data ''player_id'' of Inl e \<Rightarrow> (Some e, s) | Inr target_player \<Rightarrow>
      (case target_player of
         JStr k \<Rightarrow>
           if k \<in> set (player_ids s)
           then (case getitem data ''muted'' of Inl e \<Rightarrow> (Some e, s) | Inr m \<Rightarrow>
                   (None, upd k (\<lambda>p. p\<lparr>muted := truthy m\<rparr>) s))
           else (None, s)
       | JArr _ \<Rightarrow> (Some TypeError, s)
       | JObj _ \<Rightarrow> (Some TypeError, s)
       | _ \<Rightarrow> (None, s)))"

text \<open>The loop of lines 638 to 643 over \<^verbatim>\<open>self.players.items()\<close>, for the arena \<open>m\<close>.\<close>

fun respawn_players ::
  "nat \<Rightarrow> (pid \<times> player) list \<Rightarrow> (nat \<Rightarrow> nat) \<Rightarrow> (pid \<times> player) list \<times> (nat \<Rightarrow> nat)" where
  "respawn_players m [] r = ([], r)"
| "respawn_players m ((k, p) # ps) r =
     (if role p = Pacman
      then (let (ps', r') = respawn_players m ps r
            in ((k, p\<lparr>pos_x := fst (pacman_spawn m), pos_y := snd (pacman_spawn m)\<rparr>) # ps', r'))
      else (let (spawn_pos, r1) = choice (ghost_spawns m) r;
                (ps', r') = respawn_players m ps r1
            in ((k, p\<lparr>pos_x := fst spawn_pos, pos_y := snd spawn_pos\<rparr>) # ps', r')))"

text \<open>Lines 630 to 643, for an index that passed the range test.\<close>

definition change_map :: "nat \<Rightarrow> server \<Rightarrow> server" where
  "change_map new_map s =
     (let s1 = s\<lparr>current_map := new_map\<rparr>;
          (ps, r) = respawn_players (current_map s1) (players s1) (rnd s1)
      in s1\<lparr>players := ps, rnd := r\<rparr>)"

definition on_change_map :: "json \<Rightarrow> server \<Rightarrow> error option \<times> server" where
  "on_change_map data s =
     (case getitem data ''map_id'' of Inl e \<Rightarrow> (Some e, s) | Inr v \<Rightarrow>
      (case as_num v of Inl e \<Rightarrow> (Some e, s) | Inr new_map \<Rightarrow>
         if 0 \<le> new_map \<and> new_map < int num_maps
         then (None, change_map (nat new_map) s) else (None, s)))"

definition send_leaderboard :: "pid \<Rightarrow> server \<Rightarrow> server" where
  "send_leaderboard player_id s =
     (if player_id \<in> set (player_ids s) then emit (SendLeaderboard player_id) s else s)"

definition send_player_stats :: "pid \<Rightarrow> server \<Rightarrow> server" where
  "send_player_stats player_id s =
     (if player_id \<in> set (player_ids s) then emit (SendPlayerStats player_id) s else s)"

text \<open>The chain of \<^verbatim>\<open>if\<close>/\<^verbatim>\<open>elif\<close> on \<^verbatim>\<open>data['type']\<close>; no branch for any other value.\<close>

definition dispatch :: "json \<Rightarrow> pid \<Rightarrow> json \<Rightarrow> server \<Rightarrow> error option \<times> server" where
  "dispatch t player_id data s =
     (if t = JStr ''position'' then on_position player_id data s
      else if t = JStr ''voice_chat'' then on_voice_chat player_id data s
      else if t = JStr ''voice_audio'' then on_voice_audio player_id data s
      else if t = JStr ''mute_player'' then on_mute_player data s
      else if t = JStr ''change_map'' then on_change_map data s
      else if t = JStr ''get_leaderboard'' then (None, send_leaderboard player_id s)
      else if t = JStr ''get_player_stats''
      then (case getitem data ''username'' of
              Inr u \<Rightarrow> (None, send_player_stats player_id s)
            | Inl _ \<Rightarrow> (None, s))
      else (None, s))"

text \<open>
  \<^verbatim>\<open>handle_message\<close>. The message is the outcome of \<^verbatim>\<open>json.loads\<close> on the frame: the
  decoded value, or the exception that \<^verbatim>\<open>json.loads\<close> raises. The function catches
  \<^verbatim>\<open>JSONDecodeError\<close> only, which nothing else in its \<^verbatim>\<open>try\<close> block raises; every other
  exception leaves it. A broadcast ends every dispatch that did not raise.
\<close>

definition handle_message ::
  "int \<Rightarrow> pid \<Rightarrow> error + json \<Rightarrow> server \<Rightarrow> error option \<times> server" where
  "handle_message now player_id message s =
     (case message of
        Inl e \<Rightarrow>
          (if e = JSONDecodeError then (None, emit (LogJsonError player_id) s)
           else (Some e, s))
      | Inr data \<Rightarrow>
          (case getitem data ''type'' of
             Inl e \<Rightarrow> (Some e, s)
           | Inr t \<Rightarrow>
               (case dispatch t player_id data s of
                  (None, s') \<Rightarrow> (None, broadcast_game_state now s')
                | (Some e, s') \<Rightarrow> (Some e, s'))))"

text \<open>
  One turn of the loop of \<^verbatim>\<open>handle_client\<close>. An exception that leaves
  \<^verbatim>\<open>handle_message\<close> is caught by \<^verbatim>\<open>except Exception\<close>, logged, and the \<^verbatim>\<open>finally\<close>
  clause runs \<^verbatim>\<open>cleanup_player\<close>: the loop is over. The flag tells whether the loop goes
  on to the next message.
\<close>

definition handle_client_message ::
  "int \<Rightarrow> pid \<Rightarrow> error + json \<Rightarrow> server \<Rightarrow> bool \<times> server" where
  "handle_client_message now player_id message s =
     (case handle_message now player_id message s of
        (None, s') \<Rightarrow> (True, s')
      | (Some e, s') \<Rightarrow> (False, cleanup_player player_id (emit (LogClientError player_id e) s')))"

text \<open>
  The states the server can be in: after \<^verbatim>\<open>__init__\<close>, connections arrive, connected
  players send messages, connections close. Each step runs to its end before the next one
  starts, as the coroutines do between two sends.
\<close>

inductive reachable :: "server \<Rightarrow> bool" where
  init: "reachable (server_init ms r now)"
| connect: "reachable s \<Longrightarrow> reachable (handle_client_connect ws s)"
| message: "reachable s \<Longrightarrow> player_id \<in> set (player_ids s) \<Longrightarrow>
            reachable (snd (handle_client_message now player_id message s))"
| disconnect: "reachable s \<Longrightarrow> reachable (cleanup_player player_id s)"

section \<open>Properties and scenarios\<close>

subsection \<open>What the claims speak about\<close>

text \<open>The number of players whose role is the hunter's.\<close>

definition hunter_count :: "server \<Rightarrow> nat" where
  "hunter_count s = length (filter (\<lambda>kp. role (snd kp) = Pacman) (players s))"

text \<open>What an observer of roles sees of a state: each player's id and role, and the
  designated hunter.\<close>

definition role_view :: "server \<Rightarrow> (pid \<times> role) list \<times> pid option" where
  "role_view s = (map (\<lambda>kp. (fst kp, role (snd kp))) (players s), pacman_player_id s)"

text \<open>The ids are distinct and, unless nobody is connected, the designated hunter is
  connected and is the only player with the hunter's role.\<close>

definition roles_ok :: "server \<Rightarrow> bool" where
  "roles_ok s \<longleftrightarrow>
     distinct (map fst (fst (role_view s))) \<and>
     (fst (role_view s) \<noteq> [] \<longrightarrow>
        (\<exists>h \<in> set (map fst (fst (role_view s))). snd (role_view s) = Some h \<and>
           (\<forall>v \<in> set (fst (role_view s)). (snd v = Pacman) = (fst v = h))))"

text \<open>No collectible and no power-item of the active arena is consumed.\<close>

definition consumables_cleared :: "server \<Rightarrow> bool" where
  "consumables_cleared s \<longleftrightarrow>
     list_all (\<lambda>d. \<not> dot_eaten d) (active_dots s) \<and>
     list_all (\<lambda>i. \<not> ice_eaten i) (active_pellets s)"

text \<open>A player stands on a spawn point of arena \<open>m\<close> that fits its role.\<close>

definition at_role_spawn :: "nat \<Rightarrow> player \<Rightarrow> bool" where
  "at_role_spawn m p =
     (if role p = Pacman then (pos_x p, pos_y p) = pacman_spawn m
      else (pos_x p, pos_y p) \<in> set (ghost_spawns m))"


text \<open>The number that the \<open>j\<close>-th call of \<^verbatim>\<open>random.random()\<close> returns on the stream \<open>r\<close>.\<close>

definition draw :: "(nat \<Rightarrow> nat) \<Rightarrow> nat \<Rightarrow> rat" where
  "draw r j = of_nat (r j mod 2 ^ 53) / 2 ^ 53"

text \<open>How many of the first \<open>i\<close> collectibles (power-items) are consumed: the number of
  draws a respawn pass makes before it reaches item \<open>i\<close>.\<close>

definition eaten_dots_before :: "dot list \<Rightarrow> nat \<Rightarrow> nat" where
  "eaten_dots_before ds i = length (filter dot_eaten (take i ds))"

definition eaten_icicles_before :: "icicle list \<Rightarrow> nat \<Rightarrow> nat" where
  "eaten_icicles_before ps i = length (filter ice_eaten (take i ps))"

subsection \<open>A small game\<close>

text \<open>
  Every arena of the scenarios holds one wall (a tree of the first arena), one collectible
  on the hunter's spawn point of the first arena and one power-item. The random stream is
  constant: \<open>demo_init\<close> always draws 0, \<open>demo_init_hi\<close> always draws the largest number.
\<close>

definition demo_arena :: map_data where
  "demo_arena =
     \<lparr>walls = [\<lparr>wall_x = 300, wall_y = 400, width = 40, height = 80\<rparr>],
      dots = [\<lparr>dot_x = 400, dot_y = 500, dot_size = 3, dot_type = Regular, dot_eaten = False\<rparr>],
      power_pellets = [\<lparr>ice_x = 120, ice_y = 120, ice_eaten = False\<rparr>]\<rparr>"

definition demo_init :: server where
  "demo_init = server_init (\<lambda>_. demo_arena) (\<lambda>_. 0) 0"

definition demo_init_hi :: server where
  "demo_init_hi = server_init (\<lambda>_. demo_arena) (\<lambda>_. 9007199254740991) 0"

definition position_msg :: "int \<Rightarrow> int \<Rightarrow> json" where
  "position_msg a b =
     JObj [(''type'', JStr ''position''), (''position'', JObj [(''x'', JNum a), (''y'', JNum b)])]"

definition change_map_msg :: "int \<Rightarrow> json" where
  "change_map_msg m = JObj [(''type'', JStr ''change_map''), (''map_id'', JNum m)]"

definition mute_msg :: "pid \<Rightarrow> bool \<Rightarrow> json" where
  "mute_msg k b = JObj [(''type'', JStr ''mute_player''), (''player_id'', JStr k), (''muted'', JBool b)]"

definition voice_msg :: json where
  "voice_msg = JObj [(''type'', JStr ''voice_audio''), (''audio_data'', JStr ''pcm''), (''sequence'', JNum 1)]"

text \<open>One, two and three players, connected in this order, nothing else done.\<close>

definition demo1 :: server where
  "demo1 = handle_client_connect 1 demo_init"

definition demo2 :: server where
  "demo2 = handle_client_connect 2 demo1"

definition demo3 :: server where
  "demo3 = handle_client_connect 3 demo2"

text \<open>The lone hunter picks up the collectible of arena 0, the game moves to arena 1, then
  back to arena 0. Every message arrives at clock reading 0.\<close>

definition demo_eaten :: server where
  "demo_eaten = snd (handle_client_message 0 ''1'' (Inr (position_msg 400 500)) demo1)"

definition demo_away :: server where
  "demo_away = snd (handle_client_message 0 ''1'' (Inr (change_map_msg 1)) demo_eaten)"

definition demo_back :: server where
  "demo_back = snd (handle_client_message 0 ''1'' (Inr (change_map_msg 0)) demo_away)"


text \<open>Two players on the same spot; the hunter, player 1, sends its position three times.\<close>

definition demo_hit1 :: server where
  "demo_hit1 = snd (handle_client_message 0 ''1'' (Inr (position_msg 400 500)) demo2)"

definition demo_hit2 :: server where
  "demo_hit2 = snd (handle_client_message 0 ''1'' (Inr (position_msg 400 500)) demo_hit1)"

definition demo_hit3 :: server where
  "demo_hit3 = snd (handle_client_message 0 ''1'' (Inr (position_msg 400 500)) demo_hit2)"

text \<open>The same first steps on the stream that always draws the largest number: one
  player connects and, at clock reading 0, picks up the collectible of arena 0.\<close>

definition demo_hi1 :: server where
  "demo_hi1 = handle_client_connect 1 demo_init_hi"

definition demo_hi_eaten :: server where
  "demo_hi_eaten = snd (handle_client_message 0 ''1'' (Inr (position_msg 400 500)) demo_hi1)"



subsection \<open>The color pool\<close>

text \<open>A color of the pool is not marked as used.\<close>

definition pool_left :: "server \<Rightarrow> bool" where
  "pool_left s \<longleftrightarrow> list_ex (\<lambda>c. c \<notin> used_ghost_colors s) ghost_colors_available"


text \<open>
  The states the server reaches while the pool never runs out: a color is left when a
  player connects, and a color is left after every message (a message can issue several
  colors), so that \<^verbatim>\<open>get_ghost_color\<close> never falls back on a color in use.
\<close>

inductive unexhausted :: "server \<Rightarrow> bool" where
  u_init: "unexhausted (server_init ms r now)"
| u_connect: "unexhausted s \<Longrightarrow> pool_left s \<Longrightarrow> unexhausted (handle_client_connect ws s)"
| u_message: "unexhausted s \<Longrightarrow> player_id \<in> set (player_ids s) \<Longrightarrow>
              pool_left (snd (handle_client_message now player_id message s)) \<Longrightarrow>
              unexhausted (snd (handle_client_message now player_id message s))"
| u_disconnect: "unexhausted s \<Longrightarrow> unexhausted (cleanup_player player_id s)"




subsection \<open>The wall clamp\<close>

text \<open>
  The words of claim C10: the box of 30 pixels around \<open>(x, y)\<close> overlaps no wall of the
  active arena. Two boxes that only touch do not overlap.
\<close>

definition wall_free :: "server \<Rightarrow> int \<Rightarrow> int \<Rightarrow> bool" where
  "wall_free s x y \<longleftrightarrow>
     (\<forall>w \<in> set (walls (maps s (current_map s))).
        of_int x + 15 \<le> wall_x w \<or> wall_x w + width w \<le> of_int x - 15 \<or>
        of_int y + 15 \<le> wall_y w \<or> wall_y w + height w \<le> of_int y - 15)"


text \<open>Where the players stand and which role each has, and the walls around them.\<close>

definition place_view :: "server \<Rightarrow> (pid \<times> int \<times> int \<times> role) list \<times> wall list" where
  "place_view s =
     (map (\<lambda>kp. (fst kp, pos_x (snd kp), pos_y (snd kp), role (snd kp))) (players s),
      walls (maps s (current_map s)))"







section \<open>Evaluating the model on the scenarios\<close>

lemma str_small: "n < 10 \<Longrightarrow> str n = [digit n]"
  by (simp add: str.simps)

lemmas model_defs =
  server_init_def handle_client_connect_def get_ghost_color_def ghost_colors_available_def
  assign_roles_def assign_role_def random_choice_def choice_def player_ids_def
  send_game_state_def emit_def pacman_spawn_def ghost_spawns_def pacman_color_def
  str_small digit_def Let_def
  handle_client_message_def handle_message_def dispatch_def on_position_def
  position_update_def
  store_position_def get_valid_position_def check_wall_collision_def hits_wall_def
  move_to_def upd_def the_player_def check_snowflake_collision_def
  dot_hit_def dot_points_def active_dots_def active_pellets_def set_active_dots_def
  set_active_pellets_def check_icicle_collision_def icicle_hit_def check_ghost_collision_def
  ghost_step_def overlaps_def pacman_dies_def power_tick_def broadcast_game_state_def
  check_snowflake_respawn_def dot_respawn_interval_def cleanup_player_def
  on_voice_chat_def on_voice_audio_def on_mute_player_def on_change_map_def change_map_def
  num_maps_def broadcast_voice_audio_def voice_recipients_def send_leaderboard_def
  send_player_stats_def random_random_def
  position_msg_def change_map_msg_def mute_msg_def voice_msg_def demo_arena_def

lemma demo1_eq:
  "demo1 =
     \<lparr>connected_clients = {1},
      players = [(''1'', \<lparr>pos_x = 400, pos_y = 500, role = Pacman, color = [255, 255, 0],
         score = 0, power_mode = False, power_timer = 0, lives = 3, websocket = 1,
         name = JStr ''Player1'', voice_chat = True, muted = False\<rparr>)],
      pacman_player_id = Some ''1'', player_counter = 1,
      used_ghost_colors = {[173, 216, 230]}, current_map = 0, maps = \<lambda>_. demo_arena,
      last_respawn_time = 0, rnd = \<lambda>_. 0, effects = [SendGameState ''1'']\<rparr>"
  unfolding demo1_def demo_init_def by (simp add: model_defs)

lemma demo2_eq:
  "demo2 =
     \<lparr>connected_clients = {1, 2},
      players = [(''1'', \<lparr>pos_x = 400, pos_y = 500, role = Pacman, color = [255, 255, 0],
         score = 0, power_mode = False, power_timer = 0, lives = 3, websocket = 1,
         name = JStr ''Player1'', voice_chat = True, muted = False\<rparr>),
       (''2'', \<lparr>pos_x = 400, pos_y = 500, role = Ghost, color = [255, 182, 193],
         score = 0, power_mode = False, power_timer = 0, lives = 3, websocket = 2,
         name = JStr ''Player2'', voice_chat = True, muted = False\<rparr>)],
      pacman_player_id = Some ''1'', player_counter = 2,
      used_ghost_colors = {[173, 216, 230], [255, 182, 193]}, current_map = 0,
      maps = \<lambda>_. demo_arena, last_respawn_time = 0, rnd = \<lambda>_. 0,
      effects = [SendGameState ''1'', SendGameState ''2'']\<rparr>"
  unfolding demo2_def demo1_eq by (simp add: model_defs insert_commute)

lemma demo3_eq:
  "demo3 =
     \<lparr>connected_clients = {1, 2, 3},
      players = [(''1'', \<lparr>pos_x = 400, pos_y = 500, role = Pacman, color = [255, 255, 0],
         score = 0, power_mode = False, power_timer = 0, lives = 3, websocket = 1,
         name = JStr ''Player1'', voice_chat = True, muted = False\<rparr>),
       (''2'', \<lparr>pos_x = 400, pos_y = 500, role = Ghost, color = [255, 182, 193],
         score = 0, power_mode = False, power_timer = 0, lives = 3, websocket = 2,
         name = JStr ''Player2'', voice_chat = True, muted = False\<rparr>),
       (''3'', \<lparr>pos_x = 400, pos_y = 500, role = Ghost, color = [152, 251, 152],
         score = 0, power_mode = False, power_timer = 0, lives = 3, websocket = 3,
         name = JStr ''Player3'', voice_chat = True, muted = False\<rparr>)],
      pacman_player_id = Some ''1'', player_counter = 3,
      used_ghost_colors = {[173, 216, 230], [255, 182, 193], [152, 251, 152]}, current_map = 0,
      maps = \<lambda>_. demo_arena, last_respawn_time = 0, rnd = \<lambda>_. 0,
      effects = [SendGameState ''1'', SendGameState ''2'', SendGameState ''3'']\<rparr>"
  unfolding demo3_def demo2_eq by (simp add: model_defs insert_commute)

lemma reachable_demo1: "reachable demo1"
  unfolding demo1_def demo_init_def by (intro reachable.intros)

lemma reachable_demo2: "reachable demo2"
  unfolding demo2_def by (intro reachable.connect reachable_demo1)

lemma reachable_demo3: "reachable demo3"
  unfolding demo3_def by (intro reachable.connect reachable_demo2)

section \<open>C1: one hunter\<close>

lemma keys_map_entry: "map fst (AList.map_entry k f xs) = map fst xs"
  by (induction xs) auto

lemma roles_map_entry:
  assumes "\<And>p. role (f p) = role p"
  shows "map (\<lambda>kp. (fst kp, role (snd kp))) (AList.map_entry k f xs) = map (\<lambda>kp. (fst kp, role (snd kp))) xs"
  using assms by (induction xs) auto

lemma hunter_count_view: "hunter_count s = length (filter (\<lambda>v. snd v = Pacman) (fst (role_view s)))"
proof -
  have "\<And>ps::(pid \<times> player) list. length (filter (\<lambda>kp. role (snd kp) = Pacman) ps) =
      length (filter (\<lambda>v. snd v = Pacman) (map (\<lambda>kp. (fst kp, role (snd kp))) ps))"
    subgoal for ps by (induction ps) simp_all
    done
  then show ?thesis by (simp add: hunter_count_def role_view_def)
qed

lemma role_view_upd: "(\<And>p. role (f p) = role p) \<Longrightarrow> role_view (upd k f s) = role_view s"
  by (simp add: role_view_def upd_def roles_map_entry)

lemma count_key:
  "distinct (map fst vs) \<Longrightarrow> h \<in> set (map fst vs) \<Longrightarrow> length (filter (\<lambda>v. fst v = h) vs) = Suc 0"
proof (induction vs)
  case Nil then show ?case by simp
next
  case (Cons a vs)
  show ?case
  proof (cases "fst a = h")
    case True
    then have "h \<notin> fst ` set vs" using Cons.prems by auto
    then have "filter (\<lambda>v. fst v = h) vs = []" by (auto simp: filter_empty_conv)
    then show ?thesis using True by simp
  next
    case False
    then show ?thesis using Cons by auto
  qed
qed

lemma hunter_count_roles_ok:
  assumes "roles_ok s"
  shows "hunter_count s = (if players s = [] then 0 else 1)"
proof (cases "players s = []")
  case True then show ?thesis by (simp add: hunter_count_def)
next
  case False
  let ?vs = "fst (role_view s)"
  have ne: "?vs \<noteq> []" using False by (simp add: role_view_def)
  then obtain h where h: "h \<in> set (map fst ?vs)"
    and r: "\<forall>v \<in> set ?vs. (snd v = Pacman) = (fst v = h)"
    using assms unfolding roles_ok_def by blast
  have d: "distinct (map fst ?vs)" using assms by (simp add: roles_ok_def)
  have "filter (\<lambda>v. snd v = Pacman) ?vs = filter (\<lambda>v. fst v = h) ?vs"
    using r by (auto intro: filter_cong)
  then have "hunter_count s = Suc 0"
    using count_key[OF d h] by (simp add: hunter_count_view)
  then show ?thesis using False by simp
qed


lemma role_view_simps [simp]:
  "role_view (emit e s) = role_view s"
  "role_view (s\<lparr>rnd := r\<rparr>) = role_view s"
  "role_view (s\<lparr>effects := es\<rparr>) = role_view s"
  "role_view (s\<lparr>used_ghost_colors := u\<rparr>) = role_view s"
  "role_view (s\<lparr>connected_clients := cc\<rparr>) = role_view s"
  "role_view (s\<lparr>maps := ms\<rparr>) = role_view s"
  "role_view (s\<lparr>current_map := m\<rparr>) = role_view s"
  "role_view (s\<lparr>last_respawn_time := tm\<rparr>) = role_view s"
  "role_view (s\<lparr>player_counter := n\<rparr>) = role_view s"
  by (simp_all add: role_view_def emit_def)

lemma role_view_random_choice [simp]: "role_view (snd (random_choice xs s)) = role_view s"
  by (simp add: random_choice_def choice_def)

lemma role_view_get_ghost_color [simp]: "role_view (snd (get_ghost_color s)) = role_view s"
  by (simp add: get_ghost_color_def Let_def)

lemma role_view_move_to [simp]: "role_view (move_to k pos s) = role_view s"
  by (simp add: move_to_def role_view_upd)

lemma role_view_set_active [simp]:
  "role_view (set_active_dots ds s) = role_view s"
  "role_view (set_active_pellets ps s) = role_view s"
  by (simp_all add: set_active_dots_def set_active_pellets_def)

lemma role_view_check_snowflake_collision [simp]:
  "role_view (check_snowflake_collision k x y s) = role_view s"
  by (simp add: check_snowflake_collision_def role_view_upd split: prod.splits)

lemma role_view_check_icicle_collision [simp]:
  "role_view (check_icicle_collision k x y s) = role_view s"
  by (simp add: check_icicle_collision_def Let_def role_view_upd)

lemma role_view_power_tick [simp]: "role_view (power_tick k s) = role_view s"
  by (simp add: power_tick_def Let_def role_view_upd)

lemma role_view_store_position [simp]: "role_view (snd (store_position k x y s)) = role_view s"
  by (simp add: store_position_def Let_def)

lemma roles_ok_cong: "role_view s = role_view t \<Longrightarrow> roles_ok s = roles_ok t"
  by (simp add: roles_ok_def)

lemma roles_ok_distinct: "roles_ok s \<Longrightarrow> distinct (player_ids s)"
  by (simp add: roles_ok_def role_view_def player_ids_def comp_def)

lemma roles_ok_assign_roles:
  assumes "distinct (player_ids s)"
  shows "roles_ok (assign_roles s)"
proof (cases "players s = []")
  case True
  then show ?thesis by (simp add: assign_roles_def roles_ok_def role_view_def)
next
  case False
  define h where "h = (case pacman_player_id s of None \<Rightarrow> player_ids s ! (rnd s 0 mod length (player_ids s)) | Some k \<Rightarrow> if k \<in> set (player_ids s) then k else player_ids s ! (rnd s 0 mod length (player_ids s)))"
  have len: "length (player_ids s) > 0" using False by (simp add: player_ids_def)
  have hin: "h \<in> set (player_ids s)"
    using len by (auto simp: h_def split: option.splits)
  have pl: "players (assign_roles s) = map (assign_role (Some h)) (players s)"
    and pm: "pacman_player_id (assign_roles s) = Some h"
    using False by (auto simp: assign_roles_def Let_def random_choice_def choice_def h_def split: option.splits prod.splits)
  have rv: "role_view (assign_roles s) =
      (map (\<lambda>kp. (fst kp, if fst kp = h then Pacman else Ghost)) (players s), Some h)"
    by (simp add: role_view_def pl pm assign_role_def comp_def)
  show ?thesis
    unfolding roles_ok_def rv using assms hin
    by (auto simp: player_ids_def comp_def)
qed


lemma player_ids_view: "player_ids s = map fst (fst (role_view s))"
  by (simp add: role_view_def player_ids_def comp_def)


lemma pacman_dies_alt:
  "pacman_dies k s =
     (let s3 = assign_roles (emit (UpdateRating (name (the_player s k)) (score (the_player s k)) False)
                 (s\<lparr>pacman_player_id := None\<rparr>))
      in if k \<in> set (player_ids s3)
         then upd k (\<lambda>p. p\<lparr>color := fst (get_ghost_color (move_to k (fst (random_choice (ghost_spawns (current_map s3)) s3)) (snd (random_choice (ghost_spawns (current_map s3)) s3))))\<rparr>)
               (snd (get_ghost_color (move_to k (fst (random_choice (ghost_spawns (current_map s3)) s3)) (snd (random_choice (ghost_spawns (current_map s3)) s3)))))
         else s3)"
  unfolding pacman_dies_def Let_def case_prod_beta the_player_def
  by simp


lemma role_view_pacman_dies:
  "role_view (pacman_dies k s) =
     role_view (assign_roles (emit (UpdateRating (name (the_player s k)) (score (the_player s k)) False)
                 (s\<lparr>pacman_player_id := None\<rparr>)))"
  unfolding pacman_dies_alt Let_def
  by (simp add: role_view_upd)


lemma roles_ok_pacman_dies:
  assumes "roles_ok s"
  shows "roles_ok (pacman_dies k s)"
proof -
  have "distinct (player_ids (emit (UpdateRating (name (the_player s k)) (score (the_player s k)) False)
                 (s\<lparr>pacman_player_id := None\<rparr>)))"
    using roles_ok_distinct[OF assms] by (simp add: player_ids_def emit_def)
  then show ?thesis
    using roles_ok_assign_roles roles_ok_cong[OF role_view_pacman_dies] by blast
qed

lemma roles_ok_upd: "roles_ok s \<Longrightarrow> (\<And>p. role (f p) = role p) \<Longrightarrow> roles_ok (upd k f s)"
  using roles_ok_cong[OF role_view_upd] by blast

lemma roles_ok_ghost_step:
  assumes "roles_ok s"
  shows "roles_ok (ghost_step k x y pm g s)"
proof -
  have a: "roles_ok (upd k (\<lambda>p. p\<lparr>lives := lives p - 1\<rparr>) s)"
    using assms by (simp add: roles_ok_upd)
  have b: "roles_ok (upd k (\<lambda>p. p\<lparr>score := score p + 200\<rparr>) (move_to g pos (snd (random_choice xs s))))" for pos and xs :: "(int \<times> int) list"
    using assms by (simp add: roles_ok_upd roles_ok_cong[OF role_view_move_to] roles_ok_cong[OF role_view_random_choice])
  have c: "roles_ok (move_to k pos (upd k (\<lambda>p. p\<lparr>lives := lives p - 1\<rparr>) s))" for pos
    using a by (simp add: roles_ok_cong[OF role_view_move_to])
  show ?thesis
    unfolding ghost_step_def Let_def case_prod_beta
    using assms b c roles_ok_pacman_dies[OF a] by simp
qed

lemma roles_ok_fold_ghost_step:
  "roles_ok s \<Longrightarrow> roles_ok (fold (ghost_step k x y pm) gs s)"
  by (induction gs arbitrary: s) (simp_all add: roles_ok_ghost_step)

lemma roles_ok_check_ghost_collision:
  "roles_ok s \<Longrightarrow> roles_ok (check_ghost_collision k x y s)"
  by (simp add: check_ghost_collision_def roles_ok_fold_ghost_step)


lemma roles_ok_on_position: "roles_ok s \<Longrightarrow> roles_ok (snd (on_position k data s))"
proof -
  assume ok: "roles_ok s"
  have n: "roles_ok (upd k (\<lambda>p. p\<lparr>name := v\<rparr>) s)" for v
    using ok by (simp add: roles_ok_upd)
  have fin: "roles_ok t \<Longrightarrow> roles_ok (position_update k nx ny t)" for t nx ny
    unfolding position_update_def Let_def case_prod_beta
    by (simp add: roles_ok_cong[OF role_view_power_tick] roles_ok_check_ghost_collision
        roles_ok_cong[OF role_view_check_icicle_collision]
        roles_ok_cong[OF role_view_check_snowflake_collision]
        roles_ok_cong[OF role_view_store_position])
  show ?thesis
    unfolding on_position_def
    using ok n fin[OF ok] fin[OF n]
    by (simp split: sum.splits add: Let_def)
qed

lemma role_view_on_voice_chat: "role_view (snd (on_voice_chat k data s)) = role_view s"
  by (simp add: on_voice_chat_def role_view_upd split: sum.splits)

lemma role_view_broadcast_voice_audio [simp]: "role_view (broadcast_voice_audio k a q s) = role_view s"
  by (simp add: broadcast_voice_audio_def)

lemma role_view_on_voice_audio: "role_view (snd (on_voice_audio k data s)) = role_view s"
  by (simp add: on_voice_audio_def split: sum.splits)

lemma role_view_on_mute_player: "role_view (snd (on_mute_player data s)) = role_view s"
  by (simp add: on_mute_player_def role_view_upd split: sum.splits json.splits)

lemma respawn_players_roles:
  "map (\<lambda>kp. (fst kp, role (snd kp))) (fst (respawn_players m ps r)) = map (\<lambda>kp. (fst kp, role (snd kp))) ps"
  by (induction ps arbitrary: r) (auto simp: Let_def case_prod_beta)

lemma role_view_change_map [simp]: "role_view (change_map m s) = role_view s"
  by (simp add: change_map_def Let_def case_prod_beta role_view_def respawn_players_roles)

lemma role_view_on_change_map: "role_view (snd (on_change_map data s)) = role_view s"
  by (simp add: on_change_map_def split: sum.splits)

lemma role_view_check_snowflake_respawn [simp]: "role_view (check_snowflake_respawn now s) = role_view s"
  by (simp add: check_snowflake_respawn_def Let_def case_prod_beta)

lemma role_view_broadcast_game_state [simp]: "role_view (broadcast_game_state now s) = role_view s"
  by (simp add: broadcast_game_state_def Let_def)

lemma role_view_send [simp]:
  "role_view (send_leaderboard k s) = role_view s"
  "role_view (send_player_stats k s) = role_view s"
  "role_view (send_game_state k s) = role_view s"
  by (simp_all add: send_leaderboard_def send_player_stats_def send_game_state_def)

lemma roles_ok_dispatch: "roles_ok s \<Longrightarrow> roles_ok (snd (dispatch t k data s))"
  unfolding dispatch_def
  by (simp add: roles_ok_on_position roles_ok_cong[OF role_view_on_voice_chat]
      roles_ok_cong[OF role_view_on_voice_audio] roles_ok_cong[OF role_view_on_mute_player]
      roles_ok_cong[OF role_view_on_change_map] roles_ok_cong[OF role_view_send(1)]
      roles_ok_cong[OF role_view_send(2)] split: sum.splits)

lemma roles_ok_handle_message: "roles_ok s \<Longrightarrow> roles_ok (snd (handle_message now k msg s))"
proof -
  assume ok: "roles_ok s"
  have d: "roles_ok (snd (dispatch t k data s))" for t data
    using ok by (rule roles_ok_dispatch)
  have b: "roles_ok (snd (case r of (None, s') \<Rightarrow> (None, broadcast_game_state now s')
                                 | (Some e, s') \<Rightarrow> (Some e, s')))"
    if "roles_ok (snd r)" for r :: "error option \<times> server"
    using that by (cases r; cases "fst r") (simp_all add: roles_ok_cong[OF role_view_broadcast_game_state])
  show ?thesis
    unfolding handle_message_def
    using ok b[OF d]
    by (simp split: option.splits sum.splits add: roles_ok_cong[OF role_view_simps(1)])
qed

lemma keys_delete_distinct: "distinct (map fst ps) \<Longrightarrow> distinct (map fst (AList.delete k ps))"
  by (simp add: AList.distinct_delete)

lemma roles_ok_cleanup_player: "roles_ok s \<Longrightarrow> roles_ok (cleanup_player k s)"
proof -
  assume ok: "roles_ok s"
  have d: "distinct (map fst (players s))"
    using roles_ok_distinct[OF ok] by (simp add: player_ids_def)
  show ?thesis
  proof (cases "map_of (players s) k")
    case None
    then show ?thesis using ok by (simp add: cleanup_player_def)
  next
    case (Some p)
    have "distinct (player_ids t)" if "players t = AList.delete k (players s)" for t
      using that d by (simp add: player_ids_def AList.distinct_delete)
    then show ?thesis
      unfolding cleanup_player_def Some Let_def
      by (auto intro!: roles_ok_assign_roles simp: emit_def)
  qed
qed

lemma roles_ok_handle_client_message:
  "roles_ok s \<Longrightarrow> roles_ok (snd (handle_client_message now k msg s))"
proof -
  assume ok: "roles_ok s"
  have "roles_ok (snd (handle_message now k msg s))" using ok by (rule roles_ok_handle_message)
  then show ?thesis
    unfolding handle_client_message_def
    by (auto split: prod.splits option.splits
        intro!: roles_ok_cleanup_player simp: roles_ok_cong[OF role_view_simps(1)])
qed

lemma roles_ok_handle_client_connect: "roles_ok s \<Longrightarrow> roles_ok (handle_client_connect ws s)"
proof -
  assume ok: "roles_ok s"
  have d: "distinct (map fst (players s))"
    using roles_ok_distinct[OF ok] by (simp add: player_ids_def)
  have "distinct (player_ids t)" if "players t = AList.update k p (players s)" for t k p
    using that d by (simp add: player_ids_def AList.distinct_update)
  then show ?thesis
    unfolding handle_client_connect_def Let_def case_prod_beta
    by (auto intro!: roles_ok_assign_roles simp: roles_ok_cong[OF role_view_send(3)] get_ghost_color_def Let_def random_choice_def choice_def)
qed

lemma roles_ok_init: "roles_ok (server_init ms r now)"
  by (simp add: roles_ok_def role_view_def server_init_def)

lemma reachable_roles_ok: "reachable s \<Longrightarrow> roles_ok s"
  by (induction rule: reachable.induct)
     (simp_all add: roles_ok_init roles_ok_handle_client_connect roles_ok_handle_client_message roles_ok_cleanup_player)

text \<open>
  Claim C1. In every state the server can reach by connections, messages and
  disconnections, the number of players with the hunter's role is 0 when nobody is
  connected and exactly 1 otherwise.
\<close>

theorem single_hunter_invariant:
  "reachable s \<Longrightarrow> hunter_count s = (if players s = [] then 0 else 1)"
  by (rule hunter_count_roles_ok) (rule reachable_roles_ok)

theorem single_hunter_invariant_witness:
  "reachable demo3 \<and> players demo3 \<noteq> [] \<and> hunter_count demo3 = 1 \<and>
   reachable (cleanup_player ''1'' demo1) \<and> players (cleanup_player ''1'' demo1) = [] \<and>
   hunter_count (cleanup_player ''1'' demo1) = 0"
proof -
  have r: "reachable (cleanup_player ''1'' demo1)"
    by (intro reachable.disconnect reachable_demo1)
  have e: "players (cleanup_player ''1'' demo1) = []"
    unfolding demo1_eq by (simp add: model_defs)
  have n: "players demo3 \<noteq> []"
    unfolding demo3_eq by simp
  show ?thesis
    using single_hunter_invariant[OF reachable_demo3] single_hunter_invariant[OF r]
      reachable_demo3 r e n by simp
qed

section \<open>C9: reassignment twice\<close>

lemma assign_role_idem: "assign_role h (assign_role h kp) = assign_role h kp"
  by (simp add: assign_role_def)

lemma assign_role_fst: "fst (assign_role h kp) = fst kp"
  by (simp add: assign_role_def)

lemma keys_assign_role: "map fst (map (assign_role h) ps) = map fst ps"
  by (induction ps) (simp_all add: assign_role_fst)

lemma assign_roles_twice: "assign_roles (assign_roles s) = assign_roles s"
proof (cases "players s = []")
  case True
  then show ?thesis by (simp add: assign_roles_def)
next
  case False
  then show ?thesis
    by (auto simp: assign_roles_def Let_def random_choice_def choice_def player_ids_def
        assign_role_idem assign_role_fst keys_assign_role comp_def
        split: option.splits prod.splits)
qed

text \<open>
  Claim C9. For every state of the player registry, a second reassignment right after a
  first one changes nothing: the state after the second call is the state after the first,
  so every player has the role and the color the first call gave it (and no random number
  is drawn by the second call).
\<close>

theorem assign_roles_idempotent:
  "assign_roles (assign_roles s) = assign_roles s \<and>
   map (\<lambda>kp. (fst kp, role (snd kp), color (snd kp))) (players (assign_roles (assign_roles s))) =
   map (\<lambda>kp. (fst kp, role (snd kp), color (snd kp))) (players (assign_roles s))"
  by (simp add: assign_roles_twice)

theorem assign_roles_idempotent_witness:
  "assign_roles (assign_roles (demo2\<lparr>pacman_player_id := None\<rparr>)) =
     assign_roles (demo2\<lparr>pacman_player_id := None\<rparr>) \<and>
   map (\<lambda>kp. (fst kp, role (snd kp), color (snd kp)))
     (players (assign_roles (demo2\<lparr>pacman_player_id := None\<rparr>))) =
     [(''1'', Pacman, [255, 255, 0]), (''2'', Ghost, [255, 182, 193])]"
proof -
  have "map (\<lambda>kp. (fst kp, role (snd kp), color (snd kp)))
     (players (assign_roles (demo2\<lparr>pacman_player_id := None\<rparr>))) =
     [(''1'', Pacman, [255, 255, 0]), (''2'', Ghost, [255, 182, 193])]"
    unfolding demo2_eq by (simp add: model_defs)
  then show ?thesis
    using assign_roles_idempotent[of "demo2\<lparr>pacman_player_id := None\<rparr>"] by simp
qed

section \<open>Stored positions\<close>



lemma check_wall_collision_upd [simp]:
  "check_wall_collision (upd k f s) = check_wall_collision s"
  by (simp add: fun_eq_iff check_wall_collision_def upd_def)

section \<open>The broadcast and unknown types\<close>

lemma players_check_snowflake_respawn [simp]:
  "players (check_snowflake_respawn now s) = players s"
  "pacman_player_id (check_snowflake_respawn now s) = pacman_player_id s"
  "current_map (check_snowflake_respawn now s) = current_map s"
  "effects (check_snowflake_respawn now s) = effects s"
  "connected_clients (check_snowflake_respawn now s) = connected_clients s"
  "used_ghost_colors (check_snowflake_respawn now s) = used_ghost_colors s"
  by (simp_all add: check_snowflake_respawn_def Let_def case_prod_beta
      set_active_dots_def set_active_pellets_def)

lemma broadcast_game_state_fields [simp]:
  "players (broadcast_game_state now s) = players s"
  "pacman_player_id (broadcast_game_state now s) = pacman_player_id s"
  "current_map (broadcast_game_state now s) = current_map s"
  "connected_clients (broadcast_game_state now s) = connected_clients s"
  "used_ghost_colors (broadcast_game_state now s) = used_ghost_colors s"
  "effects (broadcast_game_state now s) = effects s @ map SendGameState (player_ids s)"
  by (simp_all add: broadcast_game_state_def Let_def player_ids_def)


section \<open>C2: switching the arena\<close>

lemma ghost_spawns_nonempty: "m < 5 \<Longrightarrow> ghost_spawns m \<noteq> []"
proof -
  assume "m < 5"
  then have "m = 0 \<or> m = 1 \<or> m = 2 \<or> m = 3 \<or> m = 4" by arith
  then show ?thesis by (auto simp: ghost_spawns_def)
qed

lemma choice_in_set: "xs \<noteq> [] \<Longrightarrow> fst (choice xs r) \<in> set xs"
  by (simp add: choice_def)

lemma respawn_players_keys: "map fst (fst (respawn_players m ps r)) = map fst ps"
  by (induction ps arbitrary: r) (auto simp: Let_def case_prod_beta)

lemma respawn_players_at_spawn:
  "ghost_spawns m \<noteq> [] \<Longrightarrow>
   list_all (\<lambda>kp. at_role_spawn m (snd kp)) (fst (respawn_players m ps r))"
proof (induction ps arbitrary: r)
  case Nil
  then show ?case by simp
next
  case (Cons kp ps)
  obtain k p where kp: "kp = (k, p)" by (cases kp)
  show ?case
    using Cons choice_in_set[OF Cons.prems, of r]
    by (simp add: kp Let_def case_prod_beta at_role_spawn_def)
qed

lemma change_map_fields:
  "maps (change_map m s) = maps s"
  "current_map (change_map m s) = m"
  "players (change_map m s) = fst (respawn_players m (players s) (rnd s))"
  by (simp_all add: change_map_def Let_def case_prod_beta)

text \<open>
  Claim C2, as amended. For every valid \<^verbatim>\<open>change_map\<close> message the handler makes the
  chosen arena the active one and clears no consumed flag: the collectibles and
  power-items of every arena are as they were stored (only the respawn pass of the
  broadcast that ends the handler can clear some), and every connected player stands on a
  spawn point of the new arena that fits its role: the hunter on the hunter's spawn, each
  evader on one of the evaders' spawns.
\<close>

theorem change_map_keeps_flags_and_respawns:
  assumes "getitem data ''type'' = Inr (JStr ''change_map'')"
    and "getitem data ''map_id'' = Inr (JNum m)"
    and "0 \<le> m" and "m < 5"
  shows "handle_message now k (Inr data) s =
           (None, broadcast_game_state now (change_map (nat m) s)) \<and>
         maps (change_map (nat m) s) = maps s \<and>
         current_map (broadcast_game_state now (change_map (nat m) s)) = nat m \<and>
         map fst (players (broadcast_game_state now (change_map (nat m) s))) =
           map fst (players s) \<and>
         list_all (\<lambda>kp. at_role_spawn (nat m) (snd kp))
           (players (broadcast_game_state now (change_map (nat m) s)))"
proof -
  have d: "dispatch (JStr ''change_map'') k data s = (None, change_map (nat m) s)"
    using assms by (simp add: dispatch_def on_change_map_def num_maps_def)
  have g: "ghost_spawns (nat m) \<noteq> []"
    using assms by (intro ghost_spawns_nonempty) arith
  show ?thesis
    using assms(1) d respawn_players_at_spawn[OF g]
    by (simp add: handle_message_def change_map_fields respawn_players_keys)
qed

lemma demo_eaten_eq:
  "demo_eaten =
     \<lparr>connected_clients = {1},
      players = [(''1'', \<lparr>pos_x = 400, pos_y = 500, role = Pacman, color = [255, 255, 0],
         score = 10, power_mode = False, power_timer = 0, lives = 3, websocket = 1,
         name = JStr ''Player1'', voice_chat = True, muted = False\<rparr>)],
      pacman_player_id = Some ''1'', player_counter = 1,
      used_ghost_colors = {[173, 216, 230]}, current_map = 0,
      maps = (\<lambda>_. demo_arena)(0 := demo_arena\<lparr>dots :=
         [\<lparr>dot_x = 400, dot_y = 500, dot_size = 3, dot_type = Regular, dot_eaten = True\<rparr>]\<rparr>),
      last_respawn_time = 0, rnd = \<lambda>_. 0,
      effects = [SendGameState ''1'', SendGameState ''1'']\<rparr>"
  unfolding demo_eaten_def demo1_eq by (simp add: model_defs)

lemma demo_away_eq:
  "demo_away =
     \<lparr>connected_clients = {1},
      players = [(''1'', \<lparr>pos_x = 100, pos_y = 100, role = Pacman, color = [255, 255, 0],
         score = 10, power_mode = False, power_timer = 0, lives = 3, websocket = 1,
         name = JStr ''Player1'', voice_chat = True, muted = False\<rparr>)],
      pacman_player_id = Some ''1'', player_counter = 1,
      used_ghost_colors = {[173, 216, 230]}, current_map = 1,
      maps = (\<lambda>_. demo_arena)(0 := demo_arena\<lparr>dots :=
         [\<lparr>dot_x = 400, dot_y = 500, dot_size = 3, dot_type = Regular, dot_eaten = True\<rparr>]\<rparr>),
      last_respawn_time = 0, rnd = \<lambda>_. 0,
      effects = [SendGameState ''1'', SendGameState ''1'', SendGameState ''1'']\<rparr>"
  unfolding demo_away_def demo_eaten_eq by (simp add: model_defs)

theorem change_map_keeps_flags_and_respawns_witness:
  "getitem (change_map_msg 0) ''type'' = Inr (JStr ''change_map'') \<and>
   getitem (change_map_msg 0) ''map_id'' = Inr (JNum 0) \<and> (0::int) \<le> 0 \<and> (0::int) < 5 \<and>
   handle_message 0 ''1'' (Inr (change_map_msg 0)) demo_away =
     (None, broadcast_game_state 0 (change_map (nat 0) demo_away)) \<and>
   maps (change_map (nat 0) demo_away) = maps demo_away \<and>
   list_all (\<lambda>kp. at_role_spawn (nat 0) (snd kp))
     (players (broadcast_game_state 0 (change_map (nat 0) demo_away)))"
proof -
  have a: "getitem (change_map_msg 0) ''type'' = Inr (JStr ''change_map'')"
    and b: "getitem (change_map_msg 0) ''map_id'' = Inr (JNum 0)"
    by (simp_all add: change_map_msg_def)
  show ?thesis
    using change_map_keeps_flags_and_respawns[OF a b, of 0 "''1''" demo_away] a b by simp
qed

text \<open>
  The claim as stated fails: the collectible that the hunter consumed in arena 0 is still
  consumed when the game comes back to arena 0, although both \<^verbatim>\<open>change_map\<close> messages
  were valid and both handlers returned.
\<close>

theorem change_map_does_not_clear:
  "fst (handle_client_message 0 ''1'' (Inr (change_map_msg 1)) demo_eaten) \<and>
   fst (handle_client_message 0 ''1'' (Inr (change_map_msg 0)) demo_away) \<and>
   current_map demo_away = 1 \<and> current_map demo_back = 0 \<and>
   active_dots demo_back =
     [\<lparr>dot_x = 400, dot_y = 500, dot_size = 3, dot_type = Regular, dot_eaten = True\<rparr>] \<and>
   \<not> consumables_cleared demo_back"
proof -
  have 1: "fst (handle_client_message 0 ''1'' (Inr (change_map_msg 1)) demo_eaten)"
    unfolding demo_eaten_eq by (simp add: model_defs)
  have 2: "fst (handle_client_message 0 ''1'' (Inr (change_map_msg 0)) demo_away)"
    unfolding demo_away_eq by (simp add: model_defs)
  have 3: "current_map demo_back = 0"
    "active_dots demo_back =
      [\<lparr>dot_x = 400, dot_y = 500, dot_size = 3, dot_type = Regular, dot_eaten = True\<rparr>]"
    unfolding demo_back_def demo_away_eq by (simp_all add: model_defs)
  have 4: "current_map demo_away = 1"
    unfolding demo_away_eq by simp
  show ?thesis
    using 1 2 3 4 by (simp add: consumables_cleared_def)
qed

section \<open>C7: muting\<close>



lemma player_ids_upd [simp]: "player_ids (upd k f s) = player_ids s"
  by (simp add: player_ids_def upd_def keys_map_entry)

lemma player_ids_broadcast_game_state [simp]:
  "player_ids (broadcast_game_state now s) = player_ids s"
  by (simp add: player_ids_def)

lemma voice_recipients_broadcast_game_state [simp]:
  "voice_recipients S (broadcast_game_state now s) = voice_recipients S s"
  by (simp add: voice_recipients_def)

lemma the_player_broadcast_game_state [simp]:
  "the_player (broadcast_game_state now s) k = the_player s k"
  by (simp add: the_player_def)






section \<open>C3: the lives and the score of a hunter\<close>

lemma demo_hit1_eq:
  "demo_hit1 =
     \<lparr>connected_clients = {1, 2},
      players = [(''1'', \<lparr>pos_x = 400, pos_y = 500, role = Pacman, color = [255, 255, 0],
         score = 10, power_mode = False, power_timer = 0, lives = 2, websocket = 1,
         name = JStr ''Player1'', voice_chat = True, muted = False\<rparr>),
       (''2'', \<lparr>pos_x = 400, pos_y = 500, role = Ghost, color = [255, 182, 193],
         score = 0, power_mode = False, power_timer = 0, lives = 3, websocket = 2,
         name = JStr ''Player2'', voice_chat = True, muted = False\<rparr>)],
      pacman_player_id = Some ''1'', player_counter = 2,
      used_ghost_colors = {[173, 216, 230], [255, 182, 193]}, current_map = 0,
      maps = (\<lambda>_. demo_arena)(0 := demo_arena\<lparr>dots :=
         [\<lparr>dot_x = 400, dot_y = 500, dot_size = 3, dot_type = Regular, dot_eaten = True\<rparr>]\<rparr>),
      last_respawn_time = 0, rnd = \<lambda>_. 0,
      effects = [SendGameState ''1'', SendGameState ''2'', SendGameState ''1'',
                 SendGameState ''2'']\<rparr>"
  unfolding demo_hit1_def demo2_eq by (simp add: model_defs)

lemma demo_hit2_eq:
  "demo_hit2 =
     \<lparr>connected_clients = {1, 2},
      players = [(''1'', \<lparr>pos_x = 400, pos_y = 500, role = Pacman, color = [255, 255, 0],
         score = 10, power_mode = False, power_timer = 0, lives = 1, websocket = 1,
         name = JStr ''Player1'', voice_chat = True, muted = False\<rparr>),
       (''2'', \<lparr>pos_x = 400, pos_y = 500, role = Ghost, color = [255, 182, 193],
         score = 0, power_mode = False, power_timer = 0, lives = 3, websocket = 2,
         name = JStr ''Player2'', voice_chat = True, muted = False\<rparr>)],
      pacman_player_id = Some ''1'', player_counter = 2,
      used_ghost_colors = {[173, 216, 230], [255, 182, 193]}, current_map = 0,
      maps = (\<lambda>_. demo_arena)(0 := demo_arena\<lparr>dots :=
         [\<lparr>dot_x = 400, dot_y = 500, dot_size = 3, dot_type = Regular, dot_eaten = True\<rparr>]\<rparr>),
      last_respawn_time = 0, rnd = \<lambda>_. 0,
      effects = [SendGameState ''1'', SendGameState ''2'', SendGameState ''1'',
                 SendGameState ''2'', SendGameState ''1'', SendGameState ''2'']\<rparr>"
  unfolding demo_hit2_def demo_hit1_eq by (simp add: model_defs)

lemma demo_hit3_eq:
  "demo_hit3 =
     \<lparr>connected_clients = {1, 2},
      players = [(''1'', \<lparr>pos_x = 400, pos_y = 300, role = Pacman, color = [152, 251, 152],
         score = 10, power_mode = False, power_timer = 0, lives = 0, websocket = 1,
         name = JStr ''Player1'', voice_chat = True, muted = False\<rparr>),
       (''2'', \<lparr>pos_x = 400, pos_y = 500, role = Ghost, color = [255, 182, 193],
         score = 0, power_mode = False, power_timer = 0, lives = 3, websocket = 2,
         name = JStr ''Player2'', voice_chat = True, muted = False\<rparr>)],
      pacman_player_id = Some ''1'', player_counter = 2,
      used_ghost_colors = {[173, 216, 230], [255, 182, 193], [152, 251, 152]}, current_map = 0,
      maps = (\<lambda>_. demo_arena)(0 := demo_arena\<lparr>dots :=
         [\<lparr>dot_x = 400, dot_y = 500, dot_size = 3, dot_type = Regular, dot_eaten = True\<rparr>]\<rparr>),
      last_respawn_time = 0, rnd = \<lambda>_. 0,
      effects = [SendGameState ''1'', SendGameState ''2'', SendGameState ''1'',
                 SendGameState ''2'', SendGameState ''1'', SendGameState ''2'',
                 UpdateRating (JStr ''Player1'') 10 False,
                 SendGameState ''1'', SendGameState ''2'']\<rparr>"
  unfolding demo_hit3_def demo_hit2_eq by (simp add: model_defs insert_commute)

lemma reachable_demo_hit1: "reachable demo_hit1"
  unfolding demo_hit1_def
  by (rule reachable.message[OF reachable_demo2]) (simp add: demo2_eq player_ids_def)

lemma reachable_demo_hit2: "reachable demo_hit2"
  unfolding demo_hit2_def
  by (rule reachable.message[OF reachable_demo_hit1]) (simp add: demo_hit1_eq player_ids_def)

lemma reachable_demo_hit3: "reachable demo_hit3"
  unfolding demo_hit3_def
  by (rule reachable.message[OF reachable_demo_hit2]) (simp add: demo_hit2_eq player_ids_def)

text \<open>Reassignment never writes the lives or the score of any player.\<close>

lemma assign_roles_keeps_lives_and_score:
  "map (\<lambda>kp. (fst kp, lives (snd kp), score (snd kp))) (players (assign_roles s)) =
   map (\<lambda>kp. (fst kp, lives (snd kp), score (snd kp))) (players s)"
  by (simp add: assign_roles_def Let_def random_choice_def choice_def assign_role_def comp_def)

text \<open>
  Claim C3 holds of the intent but not of the code. The hunter, player 1, has eaten one
  collectible (score 10) and is caught three times by player 2. At the third catch its
  lives reach 0, the role is vacated, \<^verbatim>\<open>UpdateRating\<close> is called, and the reassignment
  draws player 1 again. The re-selected hunter does not start at 3 lives and score 0: it
  keeps 0 lives and the score 10.
\<close>

theorem reselected_hunter_keeps_lives_and_score:
  "reachable demo_hit3 \<and>
   pacman_player_id demo_hit2 = Some ''1'' \<and> lives (the_player demo_hit2 ''1'') = 1 \<and>
   effects demo_hit3 = effects demo_hit2 @
     [UpdateRating (JStr ''Player1'') 10 False, SendGameState ''1'', SendGameState ''2''] \<and>
   pacman_player_id demo_hit3 = Some ''1'' \<and> role (the_player demo_hit3 ''1'') = Pacman \<and>
   lives (the_player demo_hit3 ''1'') = 0 \<and> score (the_player demo_hit3 ''1'') = 10"
  using reachable_demo_hit3
  by (simp add: demo_hit3_eq demo_hit2_eq the_player_def)

section \<open>C8: the respawn pass\<close>

lemma draw_shift: "draw (\<lambda>n. r (Suc n)) j = draw r (Suc j)"
  by (simp add: draw_def)

lemma random_random_draw: "random_random r = (draw r 0, \<lambda>n. r (Suc n))"
  by (simp add: random_random_def draw_def)

lemma respawn_dots_length: "length (fst (respawn_dots ds r)) = length ds"
  by (induction ds arbitrary: r) (simp_all add: Let_def case_prod_beta)

lemma respawn_dots_rest:
  "snd (snd (respawn_dots ds r)) = (\<lambda>n. r (n + length (filter dot_eaten ds)))"
  by (induction ds arbitrary: r) (simp_all add: Let_def case_prod_beta random_random_draw)

lemma respawn_dots_nth:
  "i < length ds \<Longrightarrow>
   fst (respawn_dots ds r) ! i =
     (if dot_eaten (ds ! i) \<and> draw r (eaten_dots_before ds i) > 7 / 10
      then (ds ! i)\<lparr>dot_eaten := False\<rparr> else ds ! i)"
proof (induction ds arbitrary: r i)
  case Nil
  then show ?case by simp
next
  case (Cons d ds)
  show ?case
  proof (cases i)
    case 0
    then show ?thesis
      by (simp add: Let_def case_prod_beta random_random_draw eaten_dots_before_def)
  next
    case (Suc j)
    then have j: "j < length ds" using Cons.prems by simp
    show ?thesis
      using Cons.IH[OF j]
      by (simp add: Suc Let_def case_prod_beta random_random_draw eaten_dots_before_def
          draw_shift)
  qed
qed

lemma respawn_dots_count:
  "(fst (snd (respawn_dots ds r)) = 0) = (fst (respawn_dots ds r) = ds)"
proof (induction ds arbitrary: r)
  case Nil
  then show ?case by simp
next
  case (Cons d ds)
  have ne: "dot_eaten d \<Longrightarrow> d\<lparr>dot_eaten := False\<rparr> \<noteq> d"
    by (metis dot.select_convs(5) dot.surjective dot.update_convs(5))
  show ?case
    using Cons ne by (simp add: Let_def case_prod_beta)
qed

lemma respawn_icicles_length: "length (fst (respawn_icicles ps r)) = length ps"
  by (induction ps arbitrary: r) (simp_all add: Let_def case_prod_beta)

lemma respawn_icicles_nth:
  "i < length ps \<Longrightarrow>
   fst (respawn_icicles ps r) ! i =
     (if ice_eaten (ps ! i) \<and> draw r (eaten_icicles_before ps i) > 1 / 2
      then (ps ! i)\<lparr>ice_eaten := False\<rparr> else ps ! i)"
proof (induction ps arbitrary: r i)
  case Nil
  then show ?case by simp
next
  case (Cons p ps)
  show ?case
  proof (cases i)
    case 0
    then show ?thesis
      by (simp add: Let_def case_prod_beta random_random_draw eaten_icicles_before_def)
  next
    case (Suc j)
    then have j: "j < length ps" using Cons.prems by simp
    show ?thesis
      using Cons.IH[OF j]
      by (simp add: Suc Let_def case_prod_beta random_random_draw eaten_icicles_before_def
          draw_shift)
  qed
qed

lemma respawn_icicles_count:
  "(fst (snd (respawn_icicles ps r)) = 0) = (fst (respawn_icicles ps r) = ps)"
proof (induction ps arbitrary: r)
  case Nil
  then show ?case by simp
next
  case (Cons p ps)
  have ne: "ice_eaten p \<Longrightarrow> p\<lparr>ice_eaten := False\<rparr> \<noteq> p"
    by (metis icicle.select_convs(3) icicle.surjective icicle.update_convs(3))
  show ?case
    using Cons ne by (simp add: Let_def case_prod_beta)
qed

lemma draw_offset: "draw (\<lambda>n. r (n + k)) j = draw r (k + j)"
  by (simp add: draw_def add.commute)

lemma active_after_set [simp]:
  "active_dots (set_active_pellets ps (set_active_dots ds s)) = ds"
  "active_pellets (set_active_pellets ps (set_active_dots ds s)) = ps"
  by (simp_all add: active_dots_def active_pellets_def set_active_dots_def
      set_active_pellets_def)

lemma active_rnd_time [simp]:
  "active_dots (s\<lparr>rnd := r\<rparr>) = active_dots s"
  "active_pellets (s\<lparr>rnd := r\<rparr>) = active_pellets s"
  "active_dots (s\<lparr>last_respawn_time := tm\<rparr>) = active_dots s"
  "active_pellets (s\<lparr>last_respawn_time := tm\<rparr>) = active_pellets s"
  by (simp_all add: active_dots_def active_pellets_def)

lemma last_respawn_time_set [simp]:
  "last_respawn_time (set_active_pellets ps (set_active_dots ds s)) = last_respawn_time s"
  by (simp add: set_active_dots_def set_active_pellets_def)

lemma respawn_pass_dots:
  assumes "now - last_respawn_time s \<ge> 30 * 1000000"
  shows "active_dots (check_snowflake_respawn now s) = fst (respawn_dots (active_dots s) (rnd s))"
    and "active_pellets (check_snowflake_respawn now s) =
         fst (respawn_icicles (active_pellets s)
                (\<lambda>n. rnd s (n + length (filter dot_eaten (active_dots s)))))"
    and "last_respawn_time (check_snowflake_respawn now s) =
         (if active_dots (check_snowflake_respawn now s) = active_dots s \<and>
             active_pellets (check_snowflake_respawn now s) = active_pellets s
          then last_respawn_time s else now)"
proof -
  let ?rd = "respawn_dots (active_dots s) (rnd s)"
  let ?ri = "respawn_icicles (active_pellets s) (snd (snd ?rd))"
  have c: "check_snowflake_respawn now s =
      (let s1 = (set_active_pellets (fst ?ri) (set_active_dots (fst ?rd) s))\<lparr>rnd := snd (snd ?ri)\<rparr>
       in if fst (snd ?rd) + fst (snd ?ri) > 0 then s1\<lparr>last_respawn_time := now\<rparr> else s1)"
    using assms
    by (simp add: check_snowflake_respawn_def dot_respawn_interval_def Let_def case_prod_beta)
  show d: "active_dots (check_snowflake_respawn now s) = fst ?rd"
    unfolding c Let_def by simp
  show p: "active_pellets (check_snowflake_respawn now s) =
         fst (respawn_icicles (active_pellets s)
                (\<lambda>n. rnd s (n + length (filter dot_eaten (active_dots s)))))"
    unfolding c Let_def by (simp add: respawn_dots_rest)
  have p': "active_pellets (check_snowflake_respawn now s) = fst ?ri"
    unfolding c Let_def by simp
  have n: "(fst (snd ?rd) + fst (snd ?ri) > 0) = (\<not> (fst ?rd = active_dots s \<and> fst ?ri = active_pellets s))"
    using respawn_dots_count[of "active_dots s" "rnd s"]
      respawn_icicles_count[of "active_pellets s" "snd (snd ?rd)"] by auto
  show "last_respawn_time (check_snowflake_respawn now s) =
         (if active_dots (check_snowflake_respawn now s) = active_dots s \<and>
             active_pellets (check_snowflake_respawn now s) = active_pellets s
          then last_respawn_time s else now)"
    unfolding d p' unfolding c Let_def n by simp
qed

text \<open>
  Claim C8, as amended. A respawn pass runs on a broadcast when at least 30 seconds have
  passed since the last pass that cleared something (30 seconds exactly are enough). In a
  pass every consumed collectible gets a draw of its own from \<open>[0, 1)\<close> and is cleared
  exactly when the draw is above 0.7; then every consumed power-item gets a draw of its
  own and is cleared exactly when it is above 0.5; items that are not consumed get no
  draw and stay. The timer is set to the current time only when the pass cleared at least
  one item; after a pass that cleared nothing it keeps its value, so every later
  broadcast runs a pass again.
\<close>

theorem respawn_pass:
  "(now - last_respawn_time s < 30 * 1000000 \<longrightarrow> check_snowflake_respawn now s = s) \<and>
   (now - last_respawn_time s \<ge> 30 * 1000000 \<longrightarrow>
      (let s' = check_snowflake_respawn now s; ds = active_dots s; ps = active_pellets s
       in length (active_dots s') = length ds \<and> length (active_pellets s') = length ps \<and>
          (\<forall>i < length ds. active_dots s' ! i =
             (if dot_eaten (ds ! i) \<and> draw (rnd s) (eaten_dots_before ds i) > 7 / 10
              then (ds ! i)\<lparr>dot_eaten := False\<rparr> else ds ! i)) \<and>
          (\<forall>i < length ps. active_pellets s' ! i =
             (if ice_eaten (ps ! i) \<and>
                 draw (rnd s) (length (filter dot_eaten ds) + eaten_icicles_before ps i) > 1 / 2
              then (ps ! i)\<lparr>ice_eaten := False\<rparr> else ps ! i)) \<and>
          last_respawn_time s' =
             (if active_dots s' = ds \<and> active_pellets s' = ps
              then last_respawn_time s else now) \<and>
          (active_dots s' = ds \<and> active_pellets s' = ps \<longrightarrow>
             (\<forall>now'. now \<le> now' \<longrightarrow> now' - last_respawn_time s' \<ge> 30 * 1000000))))"
proof (intro conjI impI)
  assume "now - last_respawn_time s < 30 * 1000000"
  then show "check_snowflake_respawn now s = s"
    by (simp add: check_snowflake_respawn_def dot_respawn_interval_def)
next
  assume a: "now - last_respawn_time s \<ge> 30 * 1000000"
  note r = respawn_pass_dots[OF a]
  have t: "active_dots (check_snowflake_respawn now s) = active_dots s \<and>
           active_pellets (check_snowflake_respawn now s) = active_pellets s \<longrightarrow>
           (\<forall>now'. now \<le> now' \<longrightarrow>
              now' - last_respawn_time (check_snowflake_respawn now s) \<ge> 30 * 1000000)"
    using a r(3) by auto
  show "let s' = check_snowflake_respawn now s; ds = active_dots s; ps = active_pellets s
       in length (active_dots s') = length ds \<and> length (active_pellets s') = length ps \<and>
          (\<forall>i < length ds. active_dots s' ! i =
             (if dot_eaten (ds ! i) \<and> draw (rnd s) (eaten_dots_before ds i) > 7 / 10
              then (ds ! i)\<lparr>dot_eaten := False\<rparr> else ds ! i)) \<and>
          (\<forall>i < length ps. active_pellets s' ! i =
             (if ice_eaten (ps ! i) \<and>
                 draw (rnd s) (length (filter dot_eaten ds) + eaten_icicles_before ps i) > 1 / 2
              then (ps ! i)\<lparr>ice_eaten := False\<rparr> else ps ! i)) \<and>
          last_respawn_time s' =
             (if active_dots s' = ds \<and> active_pellets s' = ps
              then last_respawn_time s else now) \<and>
          (active_dots s' = ds \<and> active_pellets s' = ps \<longrightarrow>
             (\<forall>now'. now \<le> now' \<longrightarrow> now' - last_respawn_time s' \<ge> 30 * 1000000))"
    unfolding Let_def
    using t r(3)
    by (simp add: r(1) r(2) respawn_dots_length respawn_icicles_length respawn_dots_nth
        respawn_icicles_nth draw_offset)
qed

lemma demo_hi1_eq:
  "demo_hi1 =
     \<lparr>connected_clients = {1},
      players = [(''1'', \<lparr>pos_x = 400, pos_y = 500, role = Pacman, color = [255, 255, 0],
         score = 0, power_mode = False, power_timer = 0, lives = 3, websocket = 1,
         name = JStr ''Player1'', voice_chat = True, muted = False\<rparr>)],
      pacman_player_id = Some ''1'', player_counter = 1,
      used_ghost_colors = {[173, 216, 230]}, current_map = 0, maps = \<lambda>_. demo_arena,
      last_respawn_time = 0, rnd = \<lambda>_. 9007199254740991, effects = [SendGameState ''1'']\<rparr>"
  unfolding demo_hi1_def demo_init_hi_def by (simp add: model_defs)

lemma demo_hi_eaten_eq:
  "demo_hi_eaten =
     \<lparr>connected_clients = {1},
      players = [(''1'', \<lparr>pos_x = 400, pos_y = 500, role = Pacman, color = [255, 255, 0],
         score = 10, power_mode = False, power_timer = 0, lives = 3, websocket = 1,
         name = JStr ''Player1'', voice_chat = True, muted = False\<rparr>)],
      pacman_player_id = Some ''1'', player_counter = 1,
      used_ghost_colors = {[173, 216, 230]}, current_map = 0,
      maps = (\<lambda>_. demo_arena)(0 := demo_arena\<lparr>dots :=
         [\<lparr>dot_x = 400, dot_y = 500, dot_size = 3, dot_type = Regular, dot_eaten = True\<rparr>]\<rparr>),
      last_respawn_time = 0, rnd = \<lambda>_. 9007199254740991,
      effects = [SendGameState ''1'', SendGameState ''1'']\<rparr>"
  unfolding demo_hi_eaten_def demo_hi1_eq by (simp add: model_defs)

lemma demo_hi_eaten_active:
  "active_dots demo_hi_eaten =
     [\<lparr>dot_x = 400, dot_y = 500, dot_size = 3, dot_type = Regular, dot_eaten = True\<rparr>]"
  "active_pellets demo_hi_eaten = [\<lparr>ice_x = 120, ice_y = 120, ice_eaten = False\<rparr>]"
  "last_respawn_time demo_hi_eaten = 0"
  "rnd demo_hi_eaten = (\<lambda>_. 9007199254740991)"
  unfolding demo_hi_eaten_eq by (simp_all add: active_dots_def active_pellets_def demo_arena_def)

theorem respawn_pass_witness:
  "check_snowflake_respawn 29999999 demo_hi_eaten = demo_hi_eaten \<and>
   active_dots (check_snowflake_respawn 40000000 demo_hi_eaten) ! 0 =
     \<lparr>dot_x = 400, dot_y = 500, dot_size = 3, dot_type = Regular, dot_eaten = False\<rparr> \<and>
   active_pellets (check_snowflake_respawn 40000000 demo_hi_eaten) ! 0 =
     \<lparr>ice_x = 120, ice_y = 120, ice_eaten = False\<rparr> \<and>
   last_respawn_time (check_snowflake_respawn 40000000 demo_hi_eaten) = 40000000"
proof -
  have a: "check_snowflake_respawn 29999999 demo_hi_eaten = demo_hi_eaten"
    using respawn_pass[of 29999999 demo_hi_eaten] by (simp add: demo_hi_eaten_active)
  have h: "draw (\<lambda>_. 9007199254740991) 0 > 7 / 10"
    by (simp add: draw_def)
  note b = respawn_pass[of 40000000 demo_hi_eaten, THEN conjunct2, unfolded Let_def,
      simplified demo_hi_eaten_active, simplified]
  have d: "active_dots (check_snowflake_respawn 40000000 demo_hi_eaten) ! 0 =
     \<lparr>dot_x = 400, dot_y = 500, dot_size = 3, dot_type = Regular, dot_eaten = False\<rparr>"
    using b h by (simp add: eaten_dots_before_def)
  have p: "active_pellets (check_snowflake_respawn 40000000 demo_hi_eaten) ! 0 =
     \<lparr>ice_x = 120, ice_y = 120, ice_eaten = False\<rparr>"
    using b by simp
  have ne: "active_dots (check_snowflake_respawn 40000000 demo_hi_eaten) \<noteq>
     [\<lparr>dot_x = 400, dot_y = 500, dot_size = 3, dot_type = Regular, dot_eaten = True\<rparr>]"
    using d by auto
  have l: "last_respawn_time (check_snowflake_respawn 40000000 demo_hi_eaten) = 40000000"
    using b ne by simp
  show ?thesis using a d p l by simp
qed

text \<open>
  The claim as stated fails at the boundary: exactly 30 seconds after the last pass the
  elapsed time does not exceed 30, and the pass runs. Here it clears the collectible that
  the hunter consumed at clock reading 0 and sets the timer.
\<close>

theorem respawn_pass_at_thirty_seconds:
  "\<not> (30000000 - last_respawn_time demo_hi_eaten > 30 * 1000000) \<and>
   active_dots demo_hi_eaten =
     [\<lparr>dot_x = 400, dot_y = 500, dot_size = 3, dot_type = Regular, dot_eaten = True\<rparr>] \<and>
   active_dots (check_snowflake_respawn 30000000 demo_hi_eaten) =
     [\<lparr>dot_x = 400, dot_y = 500, dot_size = 3, dot_type = Regular, dot_eaten = False\<rparr>] \<and>
   last_respawn_time (check_snowflake_respawn 30000000 demo_hi_eaten) = 30000000"
  unfolding demo_hi_eaten_eq by (simp add: model_defs)

section \<open>C6: the hunter loses its last life\<close>

lemma upd_fields [simp]:
  "pacman_player_id (upd k f s) = pacman_player_id s"
  "effects (upd k f s) = effects s"
  "used_ghost_colors (upd k f s) = used_ghost_colors s"
  "current_map (upd k f s) = current_map s"
  "rnd (upd k f s) = rnd s"
  "maps (upd k f s) = maps s"
  "connected_clients (upd k f s) = connected_clients s"
  by (simp_all add: upd_def)

lemma emit_fields [simp]:
  "players (emit e s) = players s"
  "pacman_player_id (emit e s) = pacman_player_id s"
  "effects (emit e s) = effects s @ [e]"
  "used_ghost_colors (emit e s) = used_ghost_colors s"
  "current_map (emit e s) = current_map s"
  "rnd (emit e s) = rnd s"
  by (simp_all add: emit_def)

lemma player_ids_emit [simp]: "player_ids (emit e s) = player_ids s"
  by (simp add: player_ids_def)

lemma random_choice_fields [simp]:
  "fst (random_choice xs s) = xs ! (rnd s 0 mod length xs)"
  "players (snd (random_choice xs s)) = players s"
  "pacman_player_id (snd (random_choice xs s)) = pacman_player_id s"
  "effects (snd (random_choice xs s)) = effects s"
  "used_ghost_colors (snd (random_choice xs s)) = used_ghost_colors s"
  "current_map (snd (random_choice xs s)) = current_map s"
  "rnd (snd (random_choice xs s)) = (\<lambda>n. rnd s (Suc n))"
  by (simp_all add: random_choice_def choice_def)

lemma get_ghost_color_fields [simp]:
  "players (snd (get_ghost_color s)) = players s"
  "pacman_player_id (snd (get_ghost_color s)) = pacman_player_id s"
  "effects (snd (get_ghost_color s)) = effects s"
  "current_map (snd (get_ghost_color s)) = current_map s"
  by (simp_all add: get_ghost_color_def Let_def random_choice_def choice_def)

lemma move_to_fields [simp]:
  "pacman_player_id (move_to k pos s) = pacman_player_id s"
  "effects (move_to k pos s) = effects s"
  "used_ghost_colors (move_to k pos s) = used_ghost_colors s"
  "current_map (move_to k pos s) = current_map s"
  "rnd (move_to k pos s) = rnd s"
  "player_ids (move_to k pos s) = player_ids s"
  by (simp_all add: move_to_def)









lemma player_ids_frames [simp]:
  "player_ids (snd (get_ghost_color s)) = player_ids s"
  "player_ids (snd (random_choice xs s)) = player_ids s"
  by (simp_all add: player_ids_def)

lemma pos_assign_role [simp]:
  "pos_x (snd (assign_role h kp)) = pos_x (snd kp)"
  "pos_y (snd (assign_role h kp)) = pos_y (snd kp)"
  "lives (snd (assign_role h kp)) = lives (snd kp)"
  "score (snd (assign_role h kp)) = score (snd kp)"
  "name (snd (assign_role h kp)) = name (snd kp)"
  by (simp_all add: assign_role_def)








section \<open>C4: the color pool\<close>










lemma assign_roles_players:
  "\<exists>h. players (assign_roles s) = map (assign_role h) (players s)"
proof (cases "players s = []")
  case True
  then show ?thesis by (simp add: assign_roles_def)
next
  case False
  then show ?thesis
    by (auto simp: assign_roles_def Let_def random_choice_def choice_def split: option.splits)
qed

lemma assign_roles_used [simp]: "used_ghost_colors (assign_roles s) = used_ghost_colors s"
  by (simp add: assign_roles_def Let_def random_choice_def choice_def)

lemma player_ids_assign_roles [simp]: "player_ids (assign_roles s) = player_ids s"
proof -
  obtain h where "players (assign_roles s) = map (assign_role h) (players s)"
    using assign_roles_players by blast
  then show ?thesis by (simp add: player_ids_def assign_role_fst)
qed














lemma pickups_frame [simp]:
  "player_ids (check_snowflake_collision k x y s) = player_ids s"
  "used_ghost_colors (check_snowflake_collision k x y s) = used_ghost_colors s"
  "player_ids (check_icicle_collision k x y s) = player_ids s"
  "used_ghost_colors (check_icicle_collision k x y s) = used_ghost_colors s"
  "player_ids (power_tick k s) = player_ids s"
  "used_ghost_colors (power_tick k s) = used_ghost_colors s"
  "player_ids (snd (store_position k nx ny s)) = player_ids s"
  "used_ghost_colors (snd (store_position k nx ny s)) = used_ghost_colors s"
  by (simp_all add: check_snowflake_collision_def check_icicle_collision_def power_tick_def
      store_position_def Let_def case_prod_beta set_active_dots_def set_active_pellets_def
      player_ids_def upd_def keys_map_entry move_to_def)






lemma used_change_map [simp]: "used_ghost_colors (change_map m s) = used_ghost_colors s"
  by (simp add: change_map_def Let_def case_prod_beta)






lemma unexhausted_reachable: "unexhausted s \<Longrightarrow> reachable s"
proof (induction rule: unexhausted.induct)
  case (u_init ms r now)
  show ?case by (rule reachable.init)
next
  case (u_connect s ws)
  then show ?case by (intro reachable.connect)
next
  case (u_message s player_id now message)
  then show ?case by (intro reachable.message)
next
  case (u_disconnect s player_id)
  then show ?case by (intro reachable.disconnect)
qed






section \<open>C5: messages that cannot be handled\<close>







section \<open>C10: the wall clamp\<close>




lemma places_map_entry:
  assumes "\<And>p. pos_x (f p) = pos_x p" "\<And>p. pos_y (f p) = pos_y p" "\<And>p. role (f p) = role p"
  shows "map (\<lambda>kp. (fst kp, pos_x (snd kp), pos_y (snd kp), role (snd kp)))
           (AList.map_entry k f xs) =
         map (\<lambda>kp. (fst kp, pos_x (snd kp), pos_y (snd kp), role (snd kp))) xs"
  using assms by (induction xs) auto

lemma place_view_upd:
  "(\<And>p. pos_x (f p) = pos_x p) \<Longrightarrow> (\<And>p. pos_y (f p) = pos_y p) \<Longrightarrow>
   (\<And>p. role (f p) = role p) \<Longrightarrow> place_view (upd k f s) = place_view s"
  by (simp add: place_view_def upd_def places_map_entry)

lemma place_view_simps [simp]:
  "place_view (emit e s) = place_view s"
  "place_view (s\<lparr>rnd := r\<rparr>) = place_view s"
  "place_view (s\<lparr>effects := es\<rparr>) = place_view s"
  "place_view (s\<lparr>last_respawn_time := tm\<rparr>) = place_view s"
  "place_view (set_active_dots ds s) = place_view s"
  "place_view (set_active_pellets ps s) = place_view s"
  by (simp_all add: place_view_def emit_def set_active_dots_def set_active_pellets_def)

lemma place_view_pickups [simp]:
  "place_view (check_snowflake_collision k x y s) = place_view s"
  "place_view (check_icicle_collision k x y s) = place_view s"
  "place_view (power_tick k s) = place_view s"
  by (simp_all add: check_snowflake_collision_def check_icicle_collision_def power_tick_def
      Let_def case_prod_beta place_view_upd)

lemma place_view_check_snowflake_respawn [simp]:
  "place_view (check_snowflake_respawn now s) = place_view s"
  by (simp add: check_snowflake_respawn_def Let_def case_prod_beta)

lemma place_view_broadcast_game_state [simp]:
  "place_view (broadcast_game_state now s) = place_view s"
  by (simp add: broadcast_game_state_def Let_def)





lemma place_view_ids: "place_view s = place_view t \<Longrightarrow> player_ids s = player_ids t"
proof -
  assume "place_view s = place_view t"
  then have "map fst (fst (place_view s)) = map fst (fst (place_view t))" by simp
  then show ?thesis by (simp add: place_view_def player_ids_def comp_def)
qed





lemma wall_free_move_to [simp]: "wall_free (move_to k v s) x y = wall_free s x y"
  by (simp add: wall_free_def move_to_def upd_def)





end
